theory Spec2Isabelle
  imports Main "HOL-Library.Word" "HOL-Library.Sublist" "HOL-Library.AList"
begin

section \<open>Thrown values\<close>

text \<open>
  Table.js raises with \<open>throw new Error(message)\<close>; the JavaScript engine raises a
  TypeError when a property of \<open>undefined\<close> or \<open>null\<close> is read or written; the storage
  client and Node's crypto module raise errors of their own, which carry an optional
  \<open>code\<close> and a message.
\<close>

datatype js_error =
    Error string
  | TypeError string
  | ClientError "string option" string

fun err_code :: "js_error \<Rightarrow> string option" where
  "err_code (ClientError c m) = c"
| "err_code (Error m) = None"
| "err_code (TypeError m) = None"

section \<open>Objects used as dictionaries\<close>

text \<open>
  Table.js keeps several dictionaries as plain objects and reads them with \<open>dict[key]\<close>.
  Such a read finds the object's own property of that name and, failing that, the
  property every object inherits from \<open>Object.prototype\<close>; the inherited values are
  functions (and, for \<open>__proto__\<close>, the prototype itself), all of them truthy and none
  with properties such as \<open>cipher\<close>. The model keeps a dictionary as the list of its own
  entries, and a read says which of the three it found.
\<close>

definition Object_prototype_names :: "string list" where
  "Object_prototype_names =
     [''constructor'', ''__defineGetter__'', ''__defineSetter__'', ''hasOwnProperty'',
      ''__lookupGetter__'', ''__lookupSetter__'', ''isPrototypeOf'', ''propertyIsEnumerable'',
      ''toString'', ''valueOf'', ''__proto__'', ''toLocaleString'']"

datatype 'a lookup = Own 'a | Inherited | Missing

definition dict_get :: "(string \<times> 'a) list \<Rightarrow> string \<Rightarrow> 'a lookup" where
  "dict_get d key =
     (case map_of d key of
        Some v \<Rightarrow> Own v
      | None \<Rightarrow> if key \<in> set Object_prototype_names then Inherited else Missing)"

section \<open>Crypto subsystem: \<open>initCrypto\<close>, \<open>encrypt\<close>, \<open>decrypt\<close>\<close>

type_synonym bytes = "8 word list"

text \<open>
  A crypto profile, an entry of \<open>this.crypto\<close>. \<open>this.crypto\<close> itself is absent
  (\<open>None\<close>) when the table was built without a \<open>crypto\<close> parameter, and otherwise a
  dictionary from profile names to profiles.
\<close>

record profile =
  pname :: string
  cipher :: string
  secret :: bytes
  password :: string

type_synonym crypto_map = "(string \<times> profile) list"

text \<open>
  Node's \<open>crypto\<close> module and \<open>Buffer\<close> are not part of the repository; the model takes
  them as a parameter.
  \<^item> \<open>sha256 pw\<close> is \<open>Crypto.createHash('sha256').update(pw, 'utf8').digest()\<close>;
  \<^item> \<open>cipher_run c key iv text inCode outCode\<close> is \<open>createCipheriv(c, key, iv)\<close> followed by
    \<open>update(text, inCode, outCode) + final(outCode)\<close>; it yields the text produced and the
    buffer \<open>getAuthTag()\<close> returns afterwards, or the error one of the calls raises;
  \<^item> \<open>decipher_run c key iv tag data inCode outCode\<close> is \<open>createDecipheriv(c, key, iv)\<close>,
    \<open>setAuthTag(tag)\<close> and \<open>update(data, inCode, outCode) + final(outCode)\<close>;
  \<^item> \<open>buffer_from s enc\<close> is \<open>Buffer.from(s, enc)\<close> and \<open>buffer_toString b enc\<close> is
    \<open>b.toString(enc)\<close>.
\<close>

record node_crypto =
  sha256 :: "string \<Rightarrow> bytes"
  cipher_run :: "string \<Rightarrow> bytes \<Rightarrow> bytes \<Rightarrow> string \<Rightarrow> string \<Rightarrow> string \<Rightarrow> js_error + (string \<times> bytes)"
  decipher_run :: "string \<Rightarrow> bytes \<Rightarrow> bytes \<Rightarrow> bytes \<Rightarrow> string \<Rightarrow> string \<Rightarrow> string \<Rightarrow> js_error + string"
  buffer_from :: "string \<Rightarrow> string \<Rightarrow> bytes"
  buffer_toString :: "bytes \<Rightarrow> string \<Rightarrow> string"

text \<open>\<open>initCrypto\<close>: every profile gets its secret from its password and its name from its key.\<close>

fun initCrypto :: "node_crypto \<Rightarrow> crypto_map \<Rightarrow> crypto_map" where
  "initCrypto nc [] = []"
| "initCrypto nc ((name, crypto) # rest) =
     (name, crypto\<lparr>secret := sha256 nc (password crypto), pname := name\<rparr>) # initCrypto nc rest"

text \<open>\<open>s.indexOf(pat)\<close>: the position of the first occurrence, \<open>-1\<close> when there is none.\<close>

fun indexOf_from :: "nat \<Rightarrow> string \<Rightarrow> string \<Rightarrow> int" where
  "indexOf_from i [] pat = (if pat = [] then int i else - 1)"
| "indexOf_from i (x # xs) pat =
     (if prefix pat (x # xs) then int i else indexOf_from (Suc i) xs pat)"

definition indexOf :: "string \<Rightarrow> string \<Rightarrow> int" where
  "indexOf s pat = indexOf_from 0 s pat"

text \<open>\<open>text.split(':')\<close>: the fields between the separators, at least one field.\<close>

fun split_acc :: "char \<Rightarrow> string \<Rightarrow> string \<Rightarrow> string list" where
  "split_acc c acc [] = [rev acc]"
| "split_acc c acc (x # xs) =
     (if x = c then rev acc # split_acc c [] xs else split_acc c (x # acc) xs)"

definition split :: "string \<Rightarrow> char \<Rightarrow> string list" where
  "split s c = split_acc c [] s"

text \<open>
  Array destructuring \<open>let [name, tag, iv, data] = fields\<close>: a position past the end of the
  array is \<open>undefined\<close> (\<open>None\<close>). \<open>!v\<close> holds of \<open>undefined\<close> and of the empty string.
\<close>

definition field :: "string list \<Rightarrow> nat \<Rightarrow> string option" where
  "field fs i = (if i < length fs then Some (fs ! i) else None)"

fun falsy :: "string option \<Rightarrow> bool" where
  "falsy None = True"
| "falsy (Some s) = (s = [])"

text \<open>
  \<open>encrypt(text, name, inCode, outCode)\<close>. The initialisation vector \<open>iv\<close> is the value
  \<open>Crypto.randomBytes(IV_LENGTH)\<close> returned in this call. When \<open>this.crypto[name]\<close> is
  an inherited value, the test \<open>!crypto\<close> lets it pass, its \<open>cipher\<close> and \<open>secret\<close> are
  \<open>undefined\<close>, and Node's \<open>createCipheriv\<close> (in \<open>decrypt\<close>, \<open>createDecipheriv\<close>) raises a
  TypeError for a cipher that is no string.
\<close>

definition undefined_cipher :: js_error where
  "undefined_cipher = TypeError ''The cipher argument must be of type string. Received undefined''"

definition IV_LENGTH :: nat where
  "IV_LENGTH = 16"

definition encrypt ::
  "node_crypto \<Rightarrow> crypto_map option \<Rightarrow> bytes \<Rightarrow> string \<Rightarrow> string \<Rightarrow> string \<Rightarrow> string \<Rightarrow> js_error + string" where
  "encrypt nc this_crypto iv text name inCode outCode =
     (if text = [] then Inr text
      else case this_crypto of
        None \<Rightarrow> Inl (Error ''dynamo: No database secret or cipher defined'')
      | Some cm \<Rightarrow>
          (case dict_get cm name of
             Missing \<Rightarrow> Inl (Error (''dynamo: Database crypto not defined for '' @ name))
           | Inherited \<Rightarrow> Inl undefined_cipher
           | Own crypto \<Rightarrow>
               (case cipher_run nc (cipher crypto) (secret crypto) iv text inCode outCode of
                  Inl e \<Rightarrow> Inl e
                | Inr (crypted, authTag) \<Rightarrow>
                    let tag = (if 0 < indexOf (cipher crypto) ''-gcm''
                               then buffer_toString nc authTag outCode else [])
                    in Inr (pname crypto @ '':'' @ tag @ '':'' @ buffer_toString nc iv ''hex''
                              @ '':'' @ crypted))))"

text \<open>\<open>decrypt(text, inCode, outCode)\<close>.\<close>

definition decrypt ::
  "node_crypto \<Rightarrow> crypto_map option \<Rightarrow> string \<Rightarrow> string \<Rightarrow> string \<Rightarrow> js_error + string" where
  "decrypt nc this_crypto text inCode outCode =
     (if text = [] then Inr text
      else
        let fs = split text CHR '':'';
            name = field fs 0; tag = field fs 1; iv = field fs 2; data = field fs 3
        in if falsy data \<or> falsy iv \<or> falsy tag \<or> falsy name then Inr text
           else case this_crypto of
             None \<Rightarrow> Inl (Error ''dynamo: No database secret or cipher defined'')
           | Some cm \<Rightarrow>
               (case dict_get cm (the name) of
                  Missing \<Rightarrow>
                    Inl (Error (''dynamo: Database crypto not defined for '' @ the name))
                | Inherited \<Rightarrow> Inl undefined_cipher
                | Own crypto \<Rightarrow>
                    decipher_run nc (cipher crypto) (secret crypto)
                      (buffer_from nc (the iv) ''hex'') (buffer_from nc (the tag) inCode)
                      (the data) inCode outCode))"

text \<open>
  A stand-in for Node's crypto module with which the model can be evaluated: the
  ``cipher'' reverses the text, the tag is one fixed byte, and the buffer conversions
  give fixed strings.
\<close>

definition stub_crypto :: node_crypto where
  "stub_crypto = \<lparr>
     sha256 = (\<lambda>pw. [1, 2, 3]),
     cipher_run = (\<lambda>c key iv text inCode outCode. Inr (rev text, [7])),
     decipher_run = (\<lambda>c key iv tag data inCode outCode. Inr (rev data)),
     buffer_from = (\<lambda>s enc. []),
     buffer_toString = (\<lambda>b enc. if b = [] then [] else ''00'') \<rparr>"

section \<open>Index and table definition builder: \<open>createTable\<close>\<close>

text \<open>
  An index declaration of \<open>this.schema.indexes\<close>. \<open>hash\<close> and \<open>sort\<close> are attribute names
  or unset (\<open>None\<close> stands for \<open>undefined\<close> and \<open>null\<close>); \<open>project\<close> is unset, an array of
  attribute names, or a string such as \<open>'keys'\<close> or \<open>'all'\<close>.
\<close>

datatype projection = NoProject | ProjectList "string list" | ProjectStr string

record index =
  hash :: "string option"
  sort :: "string option"
  project :: projection

text \<open>
  \<open>this.schema.indexes\<close> is an object from index names to declarations; the model keeps
  its entries in the order \<open>Object.entries\<close> enumerates them, and \<open>indexes.primary\<close> is the
  lookup of the key \<open>primary\<close>.
\<close>

type_synonym indexes = "(string \<times> index) list"

fun truthy_project :: "projection \<Rightarrow> bool" where
  "truthy_project NoProject = False"
| "truthy_project (ProjectList xs) = True"
| "truthy_project (ProjectStr s) = (s \<noteq> [])"

text \<open>An entry of a key schema, \<open>{AttributeName, KeyType}\<close>, and of the attribute
  definitions, \<open>{AttributeName, AttributeType}\<close>.\<close>

type_synonym key_elem = "string option \<times> string"
type_synonym attr_def = "string \<times> string"

record 'thr proj_def =
  IndexName :: string
  IndexKeySchema :: "key_elem list"
  ProjectionType :: string
  NonKeyAttributes :: "string list option"
  IndexProvisionedThroughput :: "'thr option"

text \<open>
  The table definition sent to \<open>service.createTable\<close>. An index collection that was
  deleted from the definition is \<open>None\<close>.
\<close>

record 'thr table_def =
  AttributeDefinitions :: "attr_def list"
  KeySchema :: "key_elem list"
  LocalSecondaryIndexes :: "'thr proj_def list option"
  GlobalSecondaryIndexes :: "'thr proj_def list option"
  TableName :: string
  BillingMode :: string
  ProvisionedThroughput :: "'thr option"

text \<open>
  The state of the loop over the indexes: the local object \<open>attributes\<close> (a dictionary
  whose own keys are the attribute names already declared, each with the value \<open>true\<close>;
  kept as the list of those keys) and the four lists of \<open>def\<close> the loop appends to.
\<close>

record 'thr build =
  attributes :: "string list"
  b_AttributeDefinitions :: "attr_def list"
  b_KeySchema :: "key_elem list"
  b_Local :: "'thr proj_def list"
  b_Global :: "'thr proj_def list"

text \<open>
  \<open>indexes.primary.hash\<close>: reading \<open>hash\<close> of \<open>undefined\<close> raises a TypeError when the
  schema has no index named \<open>primary\<close>.
\<close>

definition primary_hash :: "indexes \<Rightarrow> js_error + string option" where
  "primary_hash ixs =
     (case map_of ixs ''primary'' of
        None \<Rightarrow> Inl (TypeError ''Cannot read properties of undefined (reading hash)'')
      | Some p \<Rightarrow> Inr (hash p))"

text \<open>\<open>index.hash == null || index.hash == indexes.primary.hash\<close>, for a secondary index.\<close>

definition is_local :: "indexes \<Rightarrow> index \<Rightarrow> js_error + bool" where
  "is_local ixs ix =
     (if hash ix = None then Inr True
      else case primary_hash ixs of Inl e \<Rightarrow> Inl e | Inr ph \<Rightarrow> Inr (hash ix = ph))"

text \<open>The projection descriptor of a secondary index: its type and its non-key attributes.\<close>

fun projection_of :: "projection \<Rightarrow> string \<times> string list option" where
  "projection_of (ProjectList xs) = (''INCLUDE'', Some xs)"
| "projection_of (ProjectStr s) = (if s = ''keys'' then (''KEYS_ONLY'', None) else (''ALL'', None))"
| "projection_of NoProject = (''ALL'', None)"

text \<open>\<open>index.hash || indexes.primary.hash\<close>, the attribute name of the HASH key.\<close>

definition hash_key_name :: "indexes \<Rightarrow> index \<Rightarrow> js_error + string option" where
  "hash_key_name ixs ix = (if \<not> falsy (hash ix) then Inr (hash ix) else primary_hash ixs)"

text \<open>
  \<open>attributes[name]\<close>, which the loop tests for truth: an own key holds \<open>true\<close>, and an
  inherited value is truthy as well.
\<close>

definition attributes_has :: "string list \<Rightarrow> string \<Rightarrow> bool" where
  "attributes_has attrs name = (name \<in> set attrs \<or> name \<in> set Object_prototype_names)"

text \<open>
  Declaring an attribute where \<open>attributes[name]\<close> is not yet truthy:
  \<open>if (name && !attributes[name]) { def.AttributeDefinitions.push(...); attributes[name] = true }\<close>.
\<close>

definition declare_attr :: "string option \<Rightarrow> 'thr build \<Rightarrow> 'thr build" where
  "declare_attr a st =
     (if \<not> falsy a \<and> \<not> attributes_has (attributes st) (the a)
      then st\<lparr>b_AttributeDefinitions := b_AttributeDefinitions st @ [(the a, ''S'')],
              attributes := attributes st @ [the a]\<rparr>
      else st)"

text \<open>
  One turn of the loop \<open>for (let [name, index] of Object.entries(indexes))\<close>. The source
  pushes the index descriptor with an empty key list and then appends to that list; the
  model builds the key list first and stores the descriptor holding it, which gives the
  same definition.
\<close>

definition add_index :: "indexes \<Rightarrow> 'thr build \<Rightarrow> string \<times> index \<Rightarrow> js_error + 'thr build" where
  "add_index ixs st entry =
     (let name = fst entry; ix = snd entry in
      case (if name = ''primary'' then Inr None
            else case is_local ixs ix of
                   Inl e \<Rightarrow> Inl e
                 | Inr local \<Rightarrow>
                     if local \<and> truthy_project (project ix)
                     then Inl (Error ''Unwanted project for LSI'')
                     else Inr (Some local)) of
        Inl e \<Rightarrow> Inl e
      | Inr collection \<Rightarrow>
          (case hash_key_name ixs ix of
             Inl e \<Rightarrow> Inl e
           | Inr h \<Rightarrow>
               let keys = (h, ''HASH'') # (if \<not> falsy (sort ix) then [(sort ix, ''RANGE'')] else []);
                   st1 = declare_attr (sort ix) (declare_attr (hash ix) st);
                   pd = \<lparr>IndexName = name, IndexKeySchema = keys,
                         ProjectionType = fst (projection_of (project ix)),
                         NonKeyAttributes = snd (projection_of (project ix)),
                         IndexProvisionedThroughput = None\<rparr>
               in Inr (case collection of
                         None \<Rightarrow> st1\<lparr>b_KeySchema := b_KeySchema st1 @ keys\<rparr>
                       | Some True \<Rightarrow> st1\<lparr>b_Local := b_Local st1 @ [pd]\<rparr>
                       | Some False \<Rightarrow> st1\<lparr>b_Global := b_Global st1 @ [pd]\<rparr>)))"

fun build_indexes :: "indexes \<Rightarrow> (string \<times> index) list \<Rightarrow> 'thr build \<Rightarrow> js_error + 'thr build" where
  "build_indexes ixs [] st = Inr st"
| "build_indexes ixs (entry # rest) st =
     (case add_index ixs st entry of Inl e \<Rightarrow> Inl e | Inr st' \<Rightarrow> build_indexes ixs rest st')"

definition empty_build :: "'thr build" where
  "empty_build = \<lparr>attributes = [], b_AttributeDefinitions = [], b_KeySchema = [],
                  b_Local = [], b_Global = []\<rparr>"

text \<open>
  The definition \<open>createTable\<close> builds before it calls the service: the loop, then the
  empty collections are deleted and a provisioned throughput is copied onto every global
  index.
\<close>

definition createTable_def :: "string \<Rightarrow> indexes \<Rightarrow> 'thr option \<Rightarrow> js_error + 'thr table_def" where
  "createTable_def name ixs provisioned =
     (case build_indexes ixs ixs empty_build of
        Inl e \<Rightarrow> Inl e
      | Inr st \<Rightarrow>
          Inr \<lparr>AttributeDefinitions = b_AttributeDefinitions st,
               KeySchema = b_KeySchema st,
               LocalSecondaryIndexes = (if b_Local st = [] then None else Some (b_Local st)),
               GlobalSecondaryIndexes =
                 (if b_Global st = [] then None
                  else if provisioned \<noteq> None
                  then Some (map (\<lambda>i. i\<lparr>IndexProvisionedThroughput := provisioned\<rparr>) (b_Global st))
                  else Some (b_Global st)),
               TableName = name,
               BillingMode = (if provisioned \<noteq> None then ''PROVISIONED'' else ''PAY_PER_REQUEST''),
               ProvisionedThroughput = provisioned\<rparr>)"

text \<open>
  \<open>createTable(params)\<close>: the outcome together with the list of definitions passed to
  \<open>service.createTable\<close>, the only call to the client this method makes. \<open>service\<close> is the
  client's \<open>createTable\<close>; \<open>provisioned\<close> is \<open>params.ProvisionedThroughput\<close>.
\<close>

definition createTable ::
  "('thr table_def \<Rightarrow> js_error + 'r) \<Rightarrow> string \<Rightarrow> indexes \<Rightarrow> 'thr option
     \<Rightarrow> (js_error + 'r) \<times> 'thr table_def list" where
  "createTable service name ixs provisioned =
     (case createTable_def name ixs provisioned of
        Inl e \<Rightarrow> (Inl e, [])
      | Inr d \<Rightarrow> (service d, [d]))"

section \<open>JavaScript values\<close>

text \<open>
  Values that commands, results and items are made of. An object is the list of its own
  properties in enumeration order; \<open>JSet\<close> is an instance of the built-in \<open>Set\<close>.
  The code reads such objects at fixed names (\<open>Responses\<close>, \<open>wrapperName\<close>, \<open>values\<close>,
  \<open>type\<close>) and at \<open>this.typeField\<close>, which are read as own properties: none of the fixed
  names is inherited, and the type field is taken to be none either.
\<close>

datatype jsval =
    JUndefined
  | JNull
  | JBool bool
  | JNum int
  | JStr string
  | JArr "jsval list"
  | JObj "(string \<times> jsval) list"
  | JSet "jsval list"

type_synonym jsobj = "(string \<times> jsval) list"

fun truthy :: "jsval \<Rightarrow> bool" where
  "truthy JUndefined = False"
| "truthy JNull = False"
| "truthy (JBool b) = b"
| "truthy (JNum n) = (n \<noteq> 0)"
| "truthy (JStr s) = (s \<noteq> [])"
| "truthy (JArr xs) = True"
| "truthy (JObj fs) = True"
| "truthy (JSet xs) = True"

text \<open>\<open>o[k]\<close> on an object: \<open>undefined\<close> when it has no such property.\<close>

definition js_prop :: "jsobj \<Rightarrow> string \<Rightarrow> jsval" where
  "js_prop fs k = (case map_of fs k of None \<Rightarrow> JUndefined | Some v \<Rightarrow> v)"

text \<open>\<open>v[k]\<close> on any value: reading a property of \<open>undefined\<close> or \<open>null\<close> raises.\<close>

fun get_prop :: "jsval \<Rightarrow> string \<Rightarrow> js_error + jsval" where
  "get_prop JUndefined k = Inl (TypeError (''Cannot read properties of undefined (reading '' @ k @ '')''))"
| "get_prop JNull k = Inl (TypeError (''Cannot read properties of null (reading '' @ k @ '')''))"
| "get_prop (JObj fs) k = Inr (js_prop fs k)"
| "get_prop v k = Inr JUndefined"

section \<open>Operation dispatcher: \<open>execute\<close>, \<open>batchGet\<close>, \<open>batchWrite\<close>\<close>

definition DocumentClientMethods :: "(string \<times> string) list" where
  "DocumentClientMethods =
     [(''delete'', ''delete''), (''get'', ''get''), (''find'', ''query''), (''put'', ''put''),
      (''scan'', ''scan''), (''update'', ''update''), (''batchGet'', ''batchGet''),
      (''batchWrite'', ''batchWrite''), (''transactGet'', ''transactGet''),
      (''transactWrite'', ''transactWrite'')]"

definition DynamoOps :: "(string \<times> string) list" where
  "DynamoOps =
     [(''delete'', ''deleteItem''), (''get'', ''getItem''), (''find'', ''query''),
      (''put'', ''putItem''), (''scan'', ''scan''), (''update'', ''updateItem''),
      (''batchGet'', ''batchGet''), (''batchWrite'', ''batchWrite''),
      (''transactGet'', ''transactGet''), (''transactWrite'', ''transactWrite'')]"

definition GenericModel :: string where
  "GenericModel = ''_Generic''"

text \<open>
  The per-call options \<open>params\<close>. A flag is a boolean or unset and \<open>capacity\<close> a string
  or unset, where \<open>None\<close> stands for \<open>undefined\<close> and for \<open>null\<close>: the tests the code
  applies to them (\<open>params.stats\<close>, \<open>params.log ? :\<close>, \<open>params.log != false\<close>,
  \<open>params.throw === false\<close>, \<open>params.capacity ||\<close>) do not tell the two apart. The slot
  \<open>info\<close> is unset, \<open>null\<close>, or an object the caller passes to be filled in; the test
  \<open>typeof params.info == 'object'\<close> does tell \<open>undefined\<close> from \<open>null\<close>.
\<close>

datatype info_slot = InfoUnset | InfoNull | InfoObject

record params =
  p_stats :: "bool option"
  p_capacity :: "string option"
  p_log :: "bool option"
  p_throw :: "bool option"
  p_info :: info_slot
  p_consistent :: "bool option"
  p_parse :: "bool option"

text \<open>The empty options object \<open>{}\<close>.\<close>

definition no_params :: params where
  "no_params = \<lparr>p_stats = None, p_capacity = None, p_log = None, p_throw = None,
                p_info = InfoUnset, p_consistent = None, p_parse = None\<rparr>"

text \<open>
  A model of the schema, as far as the dispatcher uses it: whether it is
  \<open>schema.uniqueModel\<close>, and its \<open>transformReadItem('get', item, {}, params)\<close>.
\<close>

record model =
  is_uniqueModel :: bool
  transformReadItem :: "jsval \<Rightarrow> params \<Rightarrow> jsval"

text \<open>
  The table, as far as the dispatcher uses it. \<open>client\<close> gives the client's method of a
  name, own or inherited, if it has one: the method takes the command and returns the result the caller
  awaits, or the error it raises or rejects with. \<open>has_metrics\<close> says whether
  \<open>this.metrics\<close> is set. \<open>unmarshall\<close> is the format layer's conversion of one item and
  \<open>models\<close> the lookup \<open>this.schema.models[type]\<close>.
\<close>

record table =
  V3 :: bool
  client :: "string \<Rightarrow> (jsobj \<Rightarrow> js_error + jsval) option"
  has_metrics :: bool
  typeField :: string
  unmarshall :: "jsval \<Rightarrow> jsval"
  models :: "jsval \<Rightarrow> model option"

text \<open>
  The object \<open>trace = {model, cmd, op, properties}\<close> that \<open>execute\<close> builds and gives to
  every call of the log as context; the last branch of the \<open>catch\<close> block adds \<open>err\<close> to
  it. \<open>cmd\<close> is the command object itself, so the log sees it as it is when called.
\<close>

record 'p trace =
  tr_model :: string
  tr_cmd :: jsobj
  tr_op :: string
  tr_properties :: 'p
  tr_err :: "js_error option"

text \<open>
  What a call of \<open>execute\<close> does: its outcome (the value returned, or the value thrown),
  the calls to the log in order (the method called, that is the severity, and the message),
  the trace those calls were given, as it is in the end (\<open>None\<close> where \<open>execute\<close> was not
  called), the calls to \<open>this.metrics.add\<close> (model, operation, result, options; the time
  stamp is left out), the command object after the call, and what was written into
  \<open>params.info\<close> (\<open>operation\<close>, \<open>args\<close>, \<open>properties\<close>) if anything was.
\<close>

record 'p exec_result =
  outcome :: "js_error + jsval"
  logged :: "(string \<times> string) list"
  traced :: "'p trace option"
  metrics_added :: "(string \<times> string \<times> jsval \<times> params) list"
  cmd_out :: jsobj
  info_out :: "(string lookup \<times> jsobj \<times> 'p) option"

text \<open>
  The client invocation inside the \<open>try\<close> block: \<open>this.client[op](cmd)\<close> for a V3 client,
  \<open>this.client[DocumentClientMethods[op]](cmd).promise()\<close> otherwise. Calling a method the
  client does not have raises a TypeError, inside the \<open>try\<close> block as well; for an
  operation that is not in the table, or whose name finds an inherited value there, what
  the table gives names no method of a client.
\<close>

definition invoke :: "table \<Rightarrow> string \<Rightarrow> jsobj \<Rightarrow> js_error + jsval" where
  "invoke t op cmd =
     (let method = (if V3 t then Some op
                    else case dict_get DocumentClientMethods op of
                           Own m \<Rightarrow> Some m | Inherited \<Rightarrow> None | Missing \<Rightarrow> None) in
      case (case method of None \<Rightarrow> None | Some m \<Rightarrow> client t m) of
        None \<Rightarrow> Inl (TypeError ''this.client[...] is not a function'')
      | Some f \<Rightarrow> f cmd)"

text \<open>
  The end of \<open>execute\<close> on a path that did not throw: the \<open>finally\<close> block records the
  result with the metrics, then the info slot is filled in. \<open>typeof params.info\<close> is
  \<open>'object'\<close> for an object and for \<open>null\<close>, and writing a property of \<open>null\<close> raises.
\<close>

definition finish ::
  "table \<Rightarrow> string \<Rightarrow> string \<Rightarrow> jsobj \<Rightarrow> params \<Rightarrow> 'p \<Rightarrow> jsval \<Rightarrow> (string \<times> string) list
     \<Rightarrow> 'p exec_result" where
  "finish t model op cmd ps properties result lg =
     (let madd = (if truthy result \<and> has_metrics t then [(model, op, result, ps)] else []);
          tr = Some \<lparr>tr_model = model, tr_cmd = cmd, tr_op = op, tr_properties = properties,
                     tr_err = None\<rparr>
      in case p_info ps of
        InfoUnset \<Rightarrow>
          \<lparr>outcome = Inr result, logged = lg, traced = tr, metrics_added = madd, cmd_out = cmd,
           info_out = None\<rparr>
      | InfoObject \<Rightarrow>
          \<lparr>outcome = Inr result, logged = lg, traced = tr, metrics_added = madd, cmd_out = cmd,
           info_out = Some (dict_get DynamoOps op, cmd, properties)\<rparr>
      | InfoNull \<Rightarrow>
          \<lparr>outcome = Inl (TypeError ''Cannot set properties of null (setting operation)''),
           logged = lg, traced = tr, metrics_added = madd, cmd_out = cmd, info_out = None\<rparr>)"

text \<open>
  The start of the \<open>try\<close> block: when statistics are asked for or metrics are collected,
  the command is told to report consumed capacity, \<open>params.capacity || 'INDEXES'\<close>, and
  item collection metrics.
\<close>

definition augment :: "table \<Rightarrow> params \<Rightarrow> jsobj \<Rightarrow> jsobj" where
  "augment t ps cmd =
     (if p_stats ps = Some True \<or> has_metrics t
      then AList.update ''ReturnItemCollectionMetrics'' (JStr ''SIZE'')
             (AList.update ''ReturnConsumedCapacity''
                (JStr (if \<not> falsy (p_capacity ps) then the (p_capacity ps) else ''INDEXES''))
                cmd)
      else cmd)"

text \<open>\<open>execute(model, op, cmd, params, properties)\<close>.\<close>

definition execute ::
  "table \<Rightarrow> string \<Rightarrow> string \<Rightarrow> jsobj \<Rightarrow> params \<Rightarrow> 'p \<Rightarrow> 'p exec_result" where
  \<open>execute t model op cmd ps properties =
     (let cmd1 = augment t ps cmd;
          lg = [(if p_log ps = Some True then ''info'' else ''trace'',
                 ''OneTable "'' @ op @ ''" "'' @ model @ ''"'')]
      in case invoke t op cmd1 of
        Inr result \<Rightarrow> finish t model op cmd1 ps properties result lg
      | Inl err \<Rightarrow>
          if p_throw ps = Some False then finish t model op cmd1 ps properties (JObj []) lg
          else if err_code err = Some ''ConditionalCheckFailedException'' \<and> op = ''put'' then
            \<lparr>outcome = Inl (Error (''Conditional create failed for "'' @ model)),
             logged = lg @ [(''info'', ''Conditional check failed "'' @ op @ ''" on "'' @ model @ ''"'')],
             traced = Some \<lparr>tr_model = model, tr_cmd = cmd1, tr_op = op,
                            tr_properties = properties, tr_err = None\<rparr>,
             metrics_added = [], cmd_out = cmd1, info_out = None\<rparr>
          else
            \<lparr>outcome = Inl err,
             logged = lg @ (if p_log ps \<noteq> Some False
                            then [(''error'', ''OneTable exception in "'' @ op @ ''" on "'' @ model @ ''"'')]
                            else []),
             traced = Some \<lparr>tr_model = model, tr_cmd = cmd1, tr_op = op,
                            tr_properties = properties, tr_err = Some err\<rparr>,
             metrics_added = (if has_metrics t
                              then [(model, op, JObj [(''Error'', JNum 1)], ps)] else []),
             cmd_out = cmd1, info_out = None\<rparr>)\<close>

text \<open>
  The parsing of a \<open>batchGet\<close> response: every item of every table's list is unmarshalled
  and, when its type names a model other than the unique model, transformed and kept.
\<close>

fun values_of :: "jsval \<Rightarrow> jsval list" where
  "values_of (JObj fs) = map snd fs"
| "values_of (JArr xs) = xs"
| "values_of v = []"

fun iterate :: "jsval \<Rightarrow> js_error + jsval list" where
  "iterate (JArr xs) = Inr xs"
| "iterate (JSet xs) = Inr xs"
| "iterate v = Inl (TypeError ''items is not iterable'')"

definition parse_item :: "table \<Rightarrow> params \<Rightarrow> jsval \<Rightarrow> js_error + jsval list" where
  "parse_item t ps item0 =
     (let item = unmarshall t item0 in
      case get_prop item (typeField t) of
        Inl e \<Rightarrow> Inl e
      | Inr ty \<Rightarrow>
          (case models t (if truthy ty then ty else JStr ''_unknown'') of
             None \<Rightarrow> Inr []
           | Some m \<Rightarrow> if is_uniqueModel m then Inr [] else Inr [transformReadItem m item ps]))"

fun parse_items :: "table \<Rightarrow> params \<Rightarrow> jsval list \<Rightarrow> js_error + jsval list" where
  "parse_items t ps [] = Inr []"
| "parse_items t ps (item # rest) =
     (case parse_item t ps item of
        Inl e \<Rightarrow> Inl e
      | Inr xs \<Rightarrow> (case parse_items t ps rest of Inl e \<Rightarrow> Inl e | Inr ys \<Rightarrow> Inr (xs @ ys)))"

fun parse_response :: "table \<Rightarrow> params \<Rightarrow> jsval list \<Rightarrow> js_error + jsval list" where
  "parse_response t ps [] = Inr []"
| "parse_response t ps (items # rest) =
     (case iterate items of
        Inl e \<Rightarrow> Inl e
      | Inr xs \<Rightarrow>
          (case parse_items t ps xs of
             Inl e \<Rightarrow> Inl e
           | Inr ys \<Rightarrow> (case parse_response t ps rest of Inl e \<Rightarrow> Inl e | Inr zs \<Rightarrow> Inr (ys @ zs))))"

text \<open>
  \<open>batchGet(batch, params)\<close>. \<open>dispatched\<close> tells whether \<open>execute\<close> was called; the other
  fields are those of that call (empty when there was none).
\<close>

record batch_result = "params exec_result" +
  dispatched :: bool

definition batchGet :: "table \<Rightarrow> jsobj \<Rightarrow> params \<Rightarrow> batch_result" where
  "batchGet t batch ps =
     (if batch = [] then
        \<lparr>outcome = Inr (JArr []), logged = [], traced = None, metrics_added = [],
         cmd_out = batch, info_out = None, dispatched = False\<rparr>
      else
        let batch1 = AList.update ''ConsistentRead'' (JBool (p_consistent ps = Some True)) batch;
            r = execute t GenericModel ''batchGet'' batch1 no_params ps;
            out = (case outcome r of
                     Inl e \<Rightarrow> Inl e
                   | Inr result \<Rightarrow>
                       (case get_prop result ''Responses'' of
                          Inl e \<Rightarrow> Inl e
                        | Inr response \<Rightarrow>
                            if p_parse ps = Some True \<and> truthy response
                            then (case parse_response t ps (values_of response) of
                                    Inl e \<Rightarrow> Inl e | Inr xs \<Rightarrow> Inr (JArr xs))
                            else Inr result))
        in \<lparr>outcome = out, logged = logged r, traced = traced r,
            metrics_added = metrics_added r, cmd_out = cmd_out r, info_out = info_out r,
            dispatched = True\<rparr>)"

text \<open>\<open>batchWrite(batch, params)\<close>; the properties of its dispatch are the default \<open>{}\<close>.\<close>

definition batchWrite :: "table \<Rightarrow> jsobj \<Rightarrow> params \<Rightarrow> jsobj exec_result" where
  "batchWrite t batch ps =
     (if batch = [] then
        \<lparr>outcome = Inr (JObj []), logged = [], traced = None, metrics_added = [],
         cmd_out = batch, info_out = None\<rparr>
      else execute t GenericModel ''batchWrite'' batch ps [])"

section \<open>Format compatibility layer: \<open>marshallv2\<close>, \<open>unmarshallv2\<close>\<close>
















section \<open>Deep merge: \<open>mergeOne\<close>, \<open>merge\<close>\<close>

text \<open>
  The values \<open>merge\<close> walks can share objects and can be cyclic, so objects live in a
  heap and a value refers to an object by its address. An object has a kind and the list
  of its own properties in enumeration order (for an array: its indices).
\<close>

datatype hval =
    HUndefined
  | HNull
  | HBool bool
  | HNum int
  | HStr string
  | HRef nat

datatype okind = Plain | Array | Date int | RegExp string string | Function

type_synonym hobj = "okind \<times> (string \<times> hval) list"
type_synonym heap = "hobj list"

text \<open>An address the heap has not allocated holds an empty plain object.\<close>

definition obj_at :: "heap \<Rightarrow> nat \<Rightarrow> hobj" where
  "obj_at h a = (if a < length h then h ! a else (Plain, []))"

definition alloc :: "heap \<Rightarrow> hobj \<Rightarrow> nat \<times> heap" where
  "alloc h ob = (length h, h @ [ob])"

text \<open>Decimal digits of an array index, for the keys of a string's characters.\<close>

fun digits :: "nat \<Rightarrow> nat \<Rightarrow> string" where
  "digits 0 n = []"
| "digits (Suc fuel) n =
     (if n < 10 then [char_of (48 + n)] else digits fuel (n div 10) @ [char_of (48 + n mod 10)])"

definition index_key :: "nat \<Rightarrow> string" where
  "index_key n = digits (Suc n) n"

text \<open>
  \<open>Object.entries(src)\<close>: the own properties of an object, the characters of a string,
  nothing for a number or a boolean, a TypeError for \<open>undefined\<close> and \<open>null\<close>.
\<close>

fun entries :: "heap \<Rightarrow> hval \<Rightarrow> js_error + (string \<times> hval) list" where
  "entries h (HRef a) = Inr (snd (obj_at h a))"
| "entries h HUndefined = Inl (TypeError ''Cannot convert undefined or null to object'')"
| "entries h HNull = Inl (TypeError ''Cannot convert undefined or null to object'')"
| "entries h (HStr s) = Inr (zip (map index_key [0..<length s]) (map (\<lambda>c. HStr [c]) s))"
| "entries h v = Inr []"

text \<open>
  \<open>dest[key]\<close>. On a primitive the model gives \<open>undefined\<close>: whatever a primitive holds
  there is no array and no object, which is all \<open>mergeOne\<close> asks of it.
\<close>

fun hget :: "heap \<Rightarrow> hval \<Rightarrow> string \<Rightarrow> js_error + hval" where
  "hget h (HRef a) key =
     Inr (case map_of (snd (obj_at h a)) key of None \<Rightarrow> HUndefined | Some v \<Rightarrow> v)"
| "hget h HUndefined key = Inl (TypeError ''Cannot read properties of undefined'')"
| "hget h HNull key = Inl (TypeError ''Cannot read properties of null'')"
| "hget h v key = Inr HUndefined"

text \<open>
  \<open>dest[key] = v\<close>. The file is a module, hence strict code: the assignment raises a
  TypeError on \<open>undefined\<close>, \<open>null\<close> and on a primitive.
\<close>

fun hput :: "heap \<Rightarrow> hval \<Rightarrow> string \<Rightarrow> hval \<Rightarrow> js_error + heap" where
  "hput h (HRef a) key v =
     Inr (if a < length h then h[a := (fst (h ! a), AList.update key v (snd (h ! a)))] else h)"
| "hput h d key v = Inl (TypeError ''Cannot set properties'')"

fun kind_of :: "heap \<Rightarrow> hval \<Rightarrow> okind option" where
  "kind_of h (HRef a) = Some (fst (obj_at h a))"
| "kind_of h v = None"

text \<open>\<open>Array.isArray(v)\<close> and \<open>typeof v == 'object'\<close>.\<close>

definition is_array :: "heap \<Rightarrow> hval \<Rightarrow> bool" where
  "is_array h v = (kind_of h v = Some Array)"

fun typeof_object :: "heap \<Rightarrow> hval \<Rightarrow> bool" where
  "typeof_object h (HRef a) = (fst (obj_at h a) \<noteq> Function)"
| "typeof_object h HNull = True"
| "typeof_object h v = False"

text \<open>
  What one turn of the loop of \<open>mergeOne\<close> does with an entry before it recurses or
  assigns, in the order of the source's tests: skip an \<open>undefined\<close> value; assign a copy of
  a date or of a pattern; for an array, and then for any other object that is not \<open>null\<close>,
  make sure \<open>dest[key]\<close> is an array (an object) and descend into it; assign anything else
  as it is.
\<close>

datatype action = Skip | Assign hval heap | Descend hval heap | Fail js_error

definition prepare :: "heap \<Rightarrow> hval \<Rightarrow> string \<Rightarrow> hval \<Rightarrow> action" where
  "prepare h dest key v =
     (if v = HUndefined then Skip
      else case kind_of h v of
        Some (Date t) \<Rightarrow> (let (r, h1) = alloc h (Date t, []) in Assign (HRef r) h1)
      | Some (RegExp src flags) \<Rightarrow> (let (r, h1) = alloc h (RegExp src flags, []) in Assign (HRef r) h1)
      | Some Array \<Rightarrow>
          (case hget h dest key of
             Inl e \<Rightarrow> Fail e
           | Inr cur \<Rightarrow>
               if is_array h cur then Descend cur h
               else let (r, h1) = alloc h (Array, []) in
                    (case hput h1 dest key (HRef r) of Inl e \<Rightarrow> Fail e | Inr h2 \<Rightarrow> Descend (HRef r) h2))
      | Some Plain \<Rightarrow>
          (case hget h dest key of
             Inl e \<Rightarrow> Fail e
           | Inr cur \<Rightarrow>
               if typeof_object h cur then Descend cur h
               else let (r, h1) = alloc h (Plain, []) in
                    (case hput h1 dest key (HRef r) of Inl e \<Rightarrow> Fail e | Inr h2 \<Rightarrow> Descend (HRef r) h2))
      | _ \<Rightarrow> Assign v h)"

text \<open>
  \<open>mergeOne(recurse, dest, src)\<close>, with the heap passed through. The first argument
  bounds the number of nested calls: a call that would need more gives \<open>None\<close>.
  \<open>mergeEntries\<close> is the loop over the entries, entered with \<open>recurse\<close> already incremented.
\<close>

fun mergeOne :: "nat \<Rightarrow> nat \<Rightarrow> hval \<Rightarrow> hval \<Rightarrow> heap \<Rightarrow> (js_error + hval \<times> heap) option"
  and mergeEntries ::
    "nat \<Rightarrow> nat \<Rightarrow> hval \<Rightarrow> (string \<times> hval) list \<Rightarrow> heap \<Rightarrow> (js_error + hval \<times> heap) option"
where
  "mergeOne 0 recurse dest src h = None"
| "mergeOne (Suc n) recurse dest src h =
     (if recurse > 50 then Some (Inl (Error ''Recursive clone''))
      else case entries h src of
        Inl e \<Rightarrow> Some (Inl e)
      | Inr es \<Rightarrow> mergeEntries n (recurse + 1) dest es h)"
| "mergeEntries n recurse dest [] h = Some (Inr (dest, h))"
| "mergeEntries n recurse dest ((key, v) # es) h =
     (case prepare h dest key v of
        Fail e \<Rightarrow> Some (Inl e)
      | Skip \<Rightarrow> mergeEntries n recurse dest es h
      | Assign w h1 \<Rightarrow>
          (case hput h1 dest key w of
             Inl e \<Rightarrow> Some (Inl e)
           | Inr h2 \<Rightarrow> mergeEntries n recurse dest es h2)
      | Descend d h1 \<Rightarrow>
          (case mergeOne n recurse d v h1 of
             None \<Rightarrow> None
           | Some (Inl e) \<Rightarrow> Some (Inl e)
           | Some (Inr (d2, h2)) \<Rightarrow>
               (case hput h2 dest key d2 of
                  Inl e \<Rightarrow> Some (Inl e)
                | Inr h3 \<Rightarrow> mergeEntries n recurse dest es h3)))"

text \<open>\<open>merge(dest, ...sources)\<close>.\<close>

fun merge :: "nat \<Rightarrow> hval \<Rightarrow> hval list \<Rightarrow> heap \<Rightarrow> (js_error + hval \<times> heap) option" where
  "merge n dest [] h = Some (Inr (dest, h))"
| "merge n dest (src # sources) h =
     (case mergeOne n 0 dest src h of
        None \<Rightarrow> None
      | Some (Inl e) \<Rightarrow> Some (Inl e)
      | Some (Inr (d, h1)) \<Rightarrow> merge n d sources h1)"

section \<open>Notions the properties are stated with\<close>

text \<open>
  The attribute names an index references as keys: its hash and its sort attribute, where
  set and not empty. \<open>key_attributes\<close> lists the references of a whole schema in the order
  the loop of \<open>createTable\<close> meets them, with repetitions, and \<open>first_occurrences\<close> keeps of
  a list the first occurrence of every element.
\<close>

definition key_names :: "index \<Rightarrow> string list" where
  "key_names ix =
     (if \<not> falsy (hash ix) then [the (hash ix)] else []) @
     (if \<not> falsy (sort ix) then [the (sort ix)] else [])"

definition key_attributes :: "indexes \<Rightarrow> string list" where
  "key_attributes ixs = concat (map (\<lambda>entry. key_names (snd entry)) ixs)"

definition first_occurrences :: "string list \<Rightarrow> string list" where
  "first_occurrences xs = rev (remdups (rev xs))"

text \<open>
  The invariant of that loop: after the references \<open>seen\<close>, the keys of \<open>attributes\<close> and
  the attribute definitions are the first occurrences of \<open>seen\<close>.
\<close>

definition attrs_inv :: "'thr build \<Rightarrow> string list \<Rightarrow> bool" where
  "attrs_inv st seen =
     (attributes st = first_occurrences seen
      \<and> b_AttributeDefinitions st = map (\<lambda>a. (a, ''S'')) (first_occurrences seen))"

text \<open>
  What the loop of \<open>marshallv2\<close> and \<open>unmarshallv2\<close> has done to a property: \<open>converted\<close>,
  when a value that passes the test has been replaced and any other is as it was;
  \<open>kept_or_converted\<close>, when a value that passes the test may also still be as it was.
\<close>

definition converted ::
  "(jsval \<Rightarrow> bool) \<Rightarrow> (jsval \<Rightarrow> js_error + jsval) \<Rightarrow> string \<times> jsval \<Rightarrow> string \<times> jsval \<Rightarrow> bool" where
  "converted test conv old new =
     (fst new = fst old \<and> (if test (snd old) then conv (snd old) = Inr (snd new) else snd new = snd old))"


section \<open>Example inputs\<close>

text \<open>
  Crypto profiles as passed to the constructor, one with a cipher that is not an AEAD
  mode, and profiles as installed, with an AEAD cipher.
\<close>

definition cbc_profiles :: crypto_map where
  "cbc_profiles = [(''primary'', \<lparr>pname = [], cipher = ''aes-256-cbc'', secret = [], password = ''pw''\<rparr>)]"

definition gcm_profiles :: crypto_map where
  "gcm_profiles = [(''primary'', \<lparr>pname = ''primary'', cipher = ''aes-256-gcm'', secret = [1,2,3], password = ''pw''\<rparr>)]"

text \<open>
  Schemas: a primary index, a global index with a \<open>keys\<close> projection and a local index
  without a hash; a primary index with a local index that declares a projection; a
  primary index whose hash attribute is called \<open>constructor\<close>. A service whose
  \<open>createTable\<close> answers with the definition it was given.
\<close>

definition scenario_indexes :: indexes where
  "scenario_indexes =
     [(''primary'', \<lparr>hash = Some ''pk'', sort = Some ''sk'', project = NoProject\<rparr>),
      (''gs1'', \<lparr>hash = Some ''gsiPk'', sort = Some ''sk'', project = ProjectStr ''keys''\<rparr>),
      (''ls1'', \<lparr>hash = None, sort = Some ''gsiPk'', project = NoProject\<rparr>)]"

definition lsi_project_indexes :: indexes where
  "lsi_project_indexes =
     [(''primary'', \<lparr>hash = Some ''pk'', sort = Some ''sk'', project = NoProject\<rparr>),
      (''ls1'', \<lparr>hash = Some ''pk'', sort = Some ''id'', project = ProjectList [''email'']\<rparr>)]"

definition constructor_indexes :: indexes where
  "constructor_indexes =
     [(''primary'', \<lparr>hash = Some ''constructor'', sort = Some ''sk'', project = NoProject\<rparr>)]"

definition ok_service :: "unit table_def \<Rightarrow> js_error + unit table_def" where
  "ok_service d = Inr d"

text \<open>
  A V2 client every method of which fails with a given error, two such errors, a command
  for one item and a batch, a V3 client every method of which answers, on a table that
  collects metrics, and options that ask for everything \<open>execute\<close> can be asked for.
\<close>

definition failing_client :: "js_error \<Rightarrow> string \<Rightarrow> (jsobj \<Rightarrow> js_error + jsval) option" where
  "failing_client err m = Some (\<lambda>cmd. Inl err)"

definition failing_table :: "js_error \<Rightarrow> table" where
  "failing_table err =
     \<lparr>V3 = False, client = failing_client err, has_metrics = False, typeField = ''_type'',
      unmarshall = (\<lambda>item. item), models = (\<lambda>ty. None)\<rparr>"

definition conditional_check_failed :: js_error where
  "conditional_check_failed =
     ClientError (Some ''ConditionalCheckFailedException'') ''The conditional request failed''"

definition throttled :: js_error where
  "throttled = ClientError (Some ''ProvisionedThroughputExceededException'') ''Rate exceeded''"

definition user_cmd :: jsobj where
  "user_cmd = [(''TableName'', JStr ''T''), (''Item'', JObj [(''pk'', JStr ''user#1'')])]"

definition batch_cmd :: jsobj where
  "batch_cmd = [(''RequestItems'', JObj [(''T'', JObj [(''Keys'', JArr [JObj [(''pk'', JStr ''user#1'')]])])])]"

definition answer :: jsval where
  "answer = JObj [(''UnprocessedItems'', JObj [])]"

definition answering_table :: table where
  "answering_table =
     \<lparr>V3 = True, client = (\<lambda>m. Some (\<lambda>cmd. Inr answer)), has_metrics = True,
      typeField = ''_type'', unmarshall = (\<lambda>item. item), models = (\<lambda>ty. None)\<rparr>"

definition suppressing :: params where
  "suppressing = no_params\<lparr>p_throw := Some False, p_stats := Some True, p_log := Some True,
                            p_capacity := Some ''TOTAL'', p_info := InfoObject\<rparr>"





text \<open>
  A heap with an object that holds itself (and an empty object to merge into), and the
  heap of a chain of objects nested \<open>n\<close> deep from address \<open>a\<close> on.
\<close>

definition cyclic_heap :: heap where
  "cyclic_heap = [(Plain, [(''name'', HStr ''a''), (''self'', HRef 0)]), (Plain, [])]"

fun chain_heap :: "nat \<Rightarrow> nat \<Rightarrow> heap" where
  "chain_heap a 0 = [(Plain, [(''leaf'', HNum 1)])]"
| "chain_heap a (Suc n) = (Plain, [(''child'', HRef (Suc a))]) # chain_heap (Suc a) n"

section \<open>Properties of the crypto subsystem\<close>

lemma split_acc_colon_free:
  "c \<notin> set n \<Longrightarrow> split_acc c acc (n @ c # rest) = (rev acc @ n) # split_acc c [] rest"
  by (induction n arbitrary: acc) auto

lemma split_acc_nonempty: "split_acc c acc xs \<noteq> []"
  by (induction xs arbitrary: acc) auto

lemma split_two_fields:
  assumes "c \<notin> set n"
  shows "\<exists>fs. split (n @ c # c # rest) c = n # [] # fs"
proof -
  have "split (n @ c # c # rest) c = n # split_acc c [] (c # rest)"
    using assms by (simp add: split_def split_acc_colon_free)
  then show ?thesis by simp
qed

lemma dict_get_own: "map_of d key = Some v \<Longrightarrow> dict_get d key = Own v"
  by (simp add: dict_get_def)

lemma dict_get_missing:
  "map_of d key = None \<Longrightarrow> key \<notin> set Object_prototype_names \<Longrightarrow> dict_get d key = Missing"
  by (simp add: dict_get_def)

lemma initCrypto_pname:
  "map_of (initCrypto nc cm) name = Some crypto \<Longrightarrow> pname crypto = name"
  by (induction nc cm rule: initCrypto.induct) (auto split: if_splits)

lemma decrypt_empty_tag:
  assumes "split text CHR '':'' = n # [] # fs"
  shows "decrypt nc cr text ic oc = Inr text"
  using assms by (simp add: decrypt_def field_def Let_def)

lemma split_acc_last:
  "c \<notin> set n \<Longrightarrow> split_acc c acc n = [rev acc @ n]"
  by (induction n arbitrary: acc) auto

lemma split_four_fields:
  assumes "c \<notin> set a" "c \<notin> set b" "c \<notin> set d" "c \<notin> set e"
  shows "split (a @ c # b @ c # d @ c # e) c = [a, b, d, e]"
  using assms by (simp add: split_def split_acc_colon_free split_acc_last)

text \<open>
  For a profile whose cipher is a \<open>-gcm\<close> mode the round trip goes through, as far as it
  is the work of Table.js: when the cipher accepts the text, its tag, the hex form of the
  vector and the ciphertext are non-empty strings without a colon, and deciphering (with
  the tag and the vector read back from their string forms) returns the text, then
  \<open>decrypt\<close> of the token \<open>encrypt\<close> yields is the text.
\<close>

lemma encrypt_decrypt_gcm:
  assumes installed: "map_of (initCrypto nc cm) name = Some crypto"
    and gcm: "0 < indexOf (cipher crypto) ''-gcm''"
    and encrypted: "cipher_run nc (cipher crypto) (secret crypto) iv text inCode outCode = Inr (crypted, authTag)"
    and decrypted: "decipher_run nc (cipher crypto) (secret crypto)
                      (buffer_from nc (buffer_toString nc iv ''hex'') ''hex'')
                      (buffer_from nc (buffer_toString nc authTag outCode) outCode)
                      crypted outCode inCode = Inr text"
    and plain: "text \<noteq> []"
    and fields: "name \<noteq> []" "buffer_toString nc authTag outCode \<noteq> []"
      "buffer_toString nc iv ''hex'' \<noteq> []" "crypted \<noteq> []"
    and colons: "CHR '':'' \<notin> set name" "CHR '':'' \<notin> set (buffer_toString nc authTag outCode)"
      "CHR '':'' \<notin> set (buffer_toString nc iv ''hex'')" "CHR '':'' \<notin> set crypted"
  shows "\<exists>token. encrypt nc (Some (initCrypto nc cm)) iv text name inCode outCode = Inr token
           \<and> decrypt nc (Some (initCrypto nc cm)) token outCode inCode = Inr text"
proof -
  let ?tag = "buffer_toString nc authTag outCode"
  let ?hex = "buffer_toString nc iv ''hex''"
  let ?token = "name @ CHR '':'' # ?tag @ CHR '':'' # ?hex @ CHR '':'' # crypted"
  have pn: "pname crypto = name" using installed by (rule initCrypto_pname)
  have enc: "encrypt nc (Some (initCrypto nc cm)) iv text name inCode outCode = Inr ?token"
    using dict_get_own [OF installed] gcm encrypted plain pn by (simp add: encrypt_def)
  have sp: "split ?token CHR '':'' = [name, ?tag, ?hex, crypted]"
    using colons by (rule split_four_fields)
  have "decrypt nc (Some (initCrypto nc cm)) ?token outCode inCode = Inr text"
    using sp fields dict_get_own [OF installed] decrypted by (simp add: decrypt_def field_def)
  with enc show ?thesis by blast
qed

text \<open>
  Claim C1 (round trip of \<open>encrypt\<close> and \<open>decrypt\<close>), for a profile whose cipher is not a
  \<open>-gcm\<close> mode. \<open>encrypt\<close> writes an empty tag field into the token, and \<open>decrypt\<close>
  returns a token with an empty tag field as it is: for every installed profile whose name
  has no colon and whose cipher name does not contain \<open>-gcm\<close> after its first character,
  and every non-empty text without a colon that the cipher accepts, \<open>encrypt\<close> yields a
  token, and \<open>decrypt\<close> of that token is the token itself, not the text.
\<close>

theorem encrypt_decrypt_non_gcm:
  assumes installed: "map_of (initCrypto nc cm) name = Some crypto"
    and no_colon: "CHR '':'' \<notin> set name"
    and non_gcm: "\<not> 0 < indexOf (cipher crypto) ''-gcm''"
    and encrypted: "cipher_run nc (cipher crypto) (secret crypto) iv text inCode outCode = Inr (crypted, authTag)"
    and plain: "text \<noteq> []" "CHR '':'' \<notin> set text"
  shows "\<exists>token. encrypt nc (Some (initCrypto nc cm)) iv text name inCode outCode = Inr token
           \<and> decrypt nc (Some (initCrypto nc cm)) token outCode inCode = Inr token
           \<and> token \<noteq> text"
proof -
  let ?token = "name @ '':'' @ [] @ '':'' @ buffer_toString nc iv ''hex'' @ '':'' @ crypted"
  have pn: "pname crypto = name" using installed by (rule initCrypto_pname)
  have enc: "encrypt nc (Some (initCrypto nc cm)) iv text name inCode outCode = Inr ?token"
    using dict_get_own [OF installed] non_gcm encrypted plain(1) pn by (simp add: encrypt_def)
  obtain fs where "split ?token CHR '':'' = name # [] # fs"
    using split_two_fields [OF no_colon, of "buffer_toString nc iv ''hex'' @ '':'' @ crypted"] by auto
  then have dec: "decrypt nc (Some (initCrypto nc cm)) ?token outCode inCode = Inr ?token"
    by (rule decrypt_empty_tag)
  have "CHR '':'' \<in> set ?token" by simp
  with plain(2) have "?token \<noteq> text" by auto
  with enc dec show ?thesis by blast
qed

text \<open>The same at \<open>encrypt("secret", "primary")\<close> with the cipher \<open>aes-256-cbc\<close>.\<close>

theorem encrypt_decrypt_non_gcm_witness:
  "encrypt stub_crypto (Some (initCrypto stub_crypto cbc_profiles)) [0,0] ''secret'' ''primary'' ''utf8'' ''base64''
     = Inr ''primary::00:terces''
   \<and> decrypt stub_crypto (Some (initCrypto stub_crypto cbc_profiles)) ''primary::00:terces'' ''base64'' ''utf8''
     = Inr ''primary::00:terces''"
proof -
  let ?p = "\<lparr>pname = ''primary'', cipher = ''aes-256-cbc'', secret = [1,2,3], password = ''pw''\<rparr>"
  have a: "map_of (initCrypto stub_crypto cbc_profiles) ''primary'' = Some ?p"
    by (simp add: cbc_profiles_def stub_crypto_def)
  have b: "CHR '':'' \<notin> set ''primary''" by simp
  have c: "\<not> 0 < indexOf (cipher ?p) ''-gcm''" by (simp add: indexOf_def)
  have d: "cipher_run stub_crypto (cipher ?p) (secret ?p) [0,0] ''secret'' ''utf8'' ''base64''
             = Inr (''terces'', [7])"
    by (simp add: stub_crypto_def)
  have e: "''secret'' \<noteq> []" "CHR '':'' \<notin> set ''secret''" by simp_all
  have f: "encrypt stub_crypto (Some (initCrypto stub_crypto cbc_profiles)) [0,0] ''secret'' ''primary'' ''utf8'' ''base64''
     = Inr ''primary::00:terces''"
    using dict_get_own [OF a] c d by (simp add: encrypt_def) (simp add: stub_crypto_def)
  show ?thesis
    using encrypt_decrypt_non_gcm [OF a b c d e] f by auto
qed




text \<open>
  What \<open>decrypt\<close> does with a token whose first four fields are not empty, by what
  \<open>this.crypto[name]\<close> finds for its first field.
\<close>

lemma decrypt_token:
  assumes "split text CHR '':'' = name # tag # iv # data # rest"
    and "name \<noteq> []" "tag \<noteq> []" "iv \<noteq> []" "data \<noteq> []"
  shows "decrypt nc (Some cm) text inCode outCode
           = (case dict_get cm name of
                Missing \<Rightarrow> Inl (Error (''dynamo: Database crypto not defined for '' @ name))
              | Inherited \<Rightarrow> Inl undefined_cipher
              | Own crypto \<Rightarrow>
                  decipher_run nc (cipher crypto) (secret crypto) (buffer_from nc iv ''hex'')
                    (buffer_from nc tag inCode) data inCode outCode)"
proof -
  have "text \<noteq> []" using assms(1) by (auto simp: split_def)
  then show ?thesis using assms by (simp add: decrypt_def field_def split: lookup.split)
qed

text \<open>
  Claim C6, as the code has it: for a token whose first four fields are not empty and
  whose first field names no installed profile (and is not a name every object
  inherits a property of), \<open>decrypt\<close> raises \<open>Database crypto not defined for <name>\<close>; on
  a table without any profiles it raises \<open>No database secret or cipher defined\<close>.
\<close>

theorem decrypt_unknown_profile_raises:
  assumes fields: "split text CHR '':'' = name # tag # iv # data # rest"
    and nonempty: "name \<noteq> []" "tag \<noteq> []" "iv \<noteq> []" "data \<noteq> []"
    and unknown: "map_of cm name = None"
    and not_inherited: "name \<notin> set Object_prototype_names"
  shows "decrypt nc (Some cm) text inCode outCode
           = Inl (Error (''dynamo: Database crypto not defined for '' @ name))
         \<and> decrypt nc None text inCode outCode
           = Inl (Error ''dynamo: No database secret or cipher defined'')"
proof -
  have "text \<noteq> []" using fields by (auto simp: split_def)
  then have "decrypt nc None text inCode outCode
           = Inl (Error ''dynamo: No database secret or cipher defined'')"
    using fields nonempty by (simp add: decrypt_def field_def)
  then show ?thesis
    using decrypt_token [OF fields nonempty, of nc cm inCode outCode]
      dict_get_missing [OF unknown not_inherited]
    by simp
qed

text \<open>
  Claim C6 as stated fails: with only the profile \<open>primary\<close> installed, a four-field token
  naming the profile \<open>old\<close> is not returned unchanged; \<open>decrypt\<close> raises.
\<close>

theorem decrypt_unknown_profile_counterexample:
  "split ''old:dGFn:00ff:ZGF0YQ'' CHR '':'' = [''old'', ''dGFn'', ''00ff'', ''ZGF0YQ'']
   \<and> map_of gcm_profiles ''old'' = None
   \<and> decrypt stub_crypto (Some gcm_profiles) ''old:dGFn:00ff:ZGF0YQ'' ''base64'' ''utf8''
       = Inl (Error ''dynamo: Database crypto not defined for old'')
   \<and> decrypt stub_crypto (Some gcm_profiles) ''old:dGFn:00ff:ZGF0YQ'' ''base64'' ''utf8''
       \<noteq> Inr ''old:dGFn:00ff:ZGF0YQ''"
  by (simp add: split_def decrypt_def field_def gcm_profiles_def dict_get_def
      Object_prototype_names_def)

text \<open>The same token, through the theorem.\<close>

theorem decrypt_unknown_profile_raises_witness:
  "decrypt stub_crypto (Some gcm_profiles) ''old:dGFn:00ff:ZGF0YQ'' ''base64'' ''utf8''
       = Inl (Error ''dynamo: Database crypto not defined for old'')"
proof -
  have f: "split ''old:dGFn:00ff:ZGF0YQ'' CHR '':'' = ''old'' # ''dGFn'' # ''00ff'' # ''ZGF0YQ'' # []"
    by (simp add: split_def)
  have u: "map_of gcm_profiles ''old'' = None" by (simp add: gcm_profiles_def)
  have n: "''old'' \<notin> set Object_prototype_names" by (simp add: Object_prototype_names_def)
  show ?thesis
    using decrypt_unknown_profile_raises [OF f _ _ _ _ u n, of stub_crypto "''base64''" "''utf8''"]
    by simp
qed

section \<open>Properties of the table definition builder\<close>

lemma add_index_unwanted:
  assumes "name \<noteq> ''primary''"
    and "hash ix = None \<or> (\<exists>p. map_of ixs ''primary'' = Some p \<and> hash ix = hash p)"
    and "truthy_project (project ix)"
  shows "add_index ixs st (name, ix) = Inl (Error ''Unwanted project for LSI'')"
  using assms by (auto simp: add_index_def is_local_def primary_hash_def)

lemma build_indexes_unwanted:
  assumes "(name, ix) \<in> set es"
    and "\<And>st :: 'thr build. \<exists>e. add_index ixs st (name, ix) = Inl e"
  shows "\<exists>e. build_indexes ixs es (st :: 'thr build) = Inl e"
  using assms(1)
proof (induction es arbitrary: st)
  case Nil
  then show ?case by simp
next
  case (Cons entry es)
  show ?case
  proof (cases "add_index ixs st entry")
    case (Inl e)
    then show ?thesis by simp
  next
    case (Inr st')
    with assms(2) [of st] have "entry \<noteq> (name, ix)" by auto
    with Cons.prems have "(name, ix) \<in> set es" by simp
    from Cons.IH [OF this, of st'] Inr show ?thesis by simp
  qed
qed

lemma add_index_error_with_primary:
  assumes "map_of ixs ''primary'' = Some p" and "add_index ixs st entry = Inl e"
  shows "e = Error ''Unwanted project for LSI''"
  using assms
  by (auto simp: add_index_def is_local_def primary_hash_def hash_key_name_def Let_def
      split: if_splits sum.splits)

lemma build_indexes_error_with_primary:
  assumes "map_of ixs ''primary'' = Some p" and "build_indexes ixs es st = Inl e"
  shows "e = Error ''Unwanted project for LSI''"
  using assms(2)
proof (induction es arbitrary: st)
  case Nil
  then show ?case by simp
next
  case (Cons entry es)
  show ?case
  proof (cases "add_index ixs st entry")
    case (Inl e')
    with Cons.prems have "e' = e" by simp
    with Inl add_index_error_with_primary [OF assms(1)] show ?thesis by blast
  next
    case (Inr st')
    with Cons.prems have "build_indexes ixs es st' = Inl e" by simp
    then show ?thesis by (rule Cons.IH)
  qed
qed

text \<open>
  Claim C4: when the schema has a secondary index that is local (its hash is unset, or
  equal to the hash of the primary index) and declares a projection, \<open>createTable\<close> raises
  and makes no call to the client. When the schema has a primary index the error is
  \<open>Unwanted project for LSI\<close>.
\<close>

theorem createTable_local_projection_raises:
  fixes service :: "'thr table_def \<Rightarrow> js_error + 'r"
  assumes member: "(name, ix) \<in> set ixs"
    and secondary: "name \<noteq> ''primary''"
    and is_lsi: "hash ix = None \<or> (\<exists>p. map_of ixs ''primary'' = Some p \<and> hash ix = hash p)"
    and projects: "truthy_project (project ix)"
  shows "(\<exists>e. createTable service tname ixs provisioned = (Inl e, []))
       \<and> (map_of ixs ''primary'' \<noteq> None \<longrightarrow>
            createTable service tname ixs provisioned = (Inl (Error ''Unwanted project for LSI''), []))"
proof -
  have "\<And>st :: 'thr build. \<exists>e. add_index ixs st (name, ix) = Inl e"
    using add_index_unwanted [OF secondary is_lsi projects] by blast
  from build_indexes_unwanted [OF member this]
  obtain e where e: "build_indexes ixs ixs (empty_build :: 'thr build) = Inl e" by blast
  then have 1: "createTable service tname ixs provisioned = (Inl e, [])"
    by (simp add: createTable_def createTable_def_def)
  have "e = Error ''Unwanted project for LSI''" if "map_of ixs ''primary'' \<noteq> None"
    using that build_indexes_error_with_primary [OF _ e] by auto
  with 1 show ?thesis by auto
qed

text \<open>A local index on the primary's hash \<open>pk\<close> that projects \<open>email\<close>.\<close>

theorem createTable_local_projection_raises_witness:
  "createTable ok_service ''T'' lsi_project_indexes None = (Inl (Error ''Unwanted project for LSI''), [])"
proof -
  have m: "(''ls1'', \<lparr>hash = Some ''pk'', sort = Some ''id'', project = ProjectList [''email'']\<rparr>) \<in> set lsi_project_indexes"
    by (simp add: lsi_project_indexes_def)
  have s: "''ls1'' \<noteq> ''primary''" by simp
  have l: "hash \<lparr>hash = Some ''pk'', sort = Some ''id'', project = ProjectList [''email'']\<rparr> = None
      \<or> (\<exists>p. map_of lsi_project_indexes ''primary'' = Some p
             \<and> hash \<lparr>hash = Some ''pk'', sort = Some ''id'', project = ProjectList [''email'']\<rparr> = hash p)"
    by (simp add: lsi_project_indexes_def)
  have p: "truthy_project (project \<lparr>hash = Some ''pk'', sort = Some ''id'', project = ProjectList [''email'']\<rparr>)"
    by simp
  have q: "map_of lsi_project_indexes ''primary'' \<noteq> None" by (simp add: lsi_project_indexes_def)
  from createTable_local_projection_raises [OF m s l p, of ok_service "''T''" None] q
  show ?thesis by blast
qed

lemma first_occurrences_snoc:
  "first_occurrences (xs @ [a]) =
     (if a \<in> set (first_occurrences xs) then first_occurrences xs else first_occurrences xs @ [a])"
  by (simp add: first_occurrences_def)

lemma declare_attr_inv:
  assumes "attrs_inv st seen"
    and "\<not> falsy a \<Longrightarrow> the a \<notin> set Object_prototype_names"
  shows "attrs_inv (declare_attr a st) (seen @ (if \<not> falsy a then [the a] else []))"
  using assms
  by (auto simp: attrs_inv_def declare_attr_def attributes_has_def first_occurrences_snoc)

lemma add_index_attrs:
  assumes "add_index ixs st entry = Inr st'"
  shows "attributes st' = attributes (declare_attr (sort (snd entry)) (declare_attr (hash (snd entry)) st))
       \<and> b_AttributeDefinitions st' =
           b_AttributeDefinitions (declare_attr (sort (snd entry)) (declare_attr (hash (snd entry)) st))"
  using assms
  by (auto simp: add_index_def Let_def split: if_splits sum.splits option.splits bool.splits)

lemma add_index_inv:
  assumes "add_index ixs st entry = Inr st'" and "attrs_inv st seen"
    and own: "set (key_names (snd entry)) \<inter> set Object_prototype_names = {}"
  shows "attrs_inv st' (seen @ key_names (snd entry))"
proof -
  have h: "\<not> falsy (hash (snd entry)) \<Longrightarrow> the (hash (snd entry)) \<notin> set Object_prototype_names"
    and s: "\<not> falsy (sort (snd entry)) \<Longrightarrow> the (sort (snd entry)) \<notin> set Object_prototype_names"
    using own by (auto simp: key_names_def)
  have "attrs_inv (declare_attr (sort (snd entry)) (declare_attr (hash (snd entry)) st))
          ((seen @ (if \<not> falsy (hash (snd entry)) then [the (hash (snd entry))] else []))
             @ (if \<not> falsy (sort (snd entry)) then [the (sort (snd entry))] else []))"
    by (intro declare_attr_inv assms(2) h s)
  then show ?thesis
    using add_index_attrs [OF assms(1)] by (simp add: attrs_inv_def key_names_def)
qed

lemma build_indexes_inv:
  assumes "build_indexes ixs es st = Inr st'" and "attrs_inv st seen"
    and "set (key_attributes es) \<inter> set Object_prototype_names = {}"
  shows "attrs_inv st' (seen @ key_attributes es)"
  using assms
proof (induction es arbitrary: st seen)
  case Nil
  then show ?case by (simp add: key_attributes_def)
next
  case (Cons entry es)
  from Cons.prems(1) obtain st1 where
    1: "add_index ixs st entry = Inr st1" and 2: "build_indexes ixs es st1 = Inr st'"
    by (auto split: sum.splits)
  from Cons.prems(3) have own: "set (key_names (snd entry)) \<inter> set Object_prototype_names = {}"
    and rest: "set (key_attributes es) \<inter> set Object_prototype_names = {}"
    by (auto simp: key_attributes_def)
  from Cons.IH [OF 2 add_index_inv [OF 1 Cons.prems(2) own] rest]
  show ?case by (simp add: key_attributes_def)
qed

lemma distinct_first_occurrences: "distinct (first_occurrences xs)"
  by (simp add: first_occurrences_def)

lemma set_first_occurrences: "set (first_occurrences xs) = set xs"
  by (simp add: first_occurrences_def)

lemma distinct_count_one:
  assumes "distinct xs" and "a \<in> set xs"
  shows "length (filter (\<lambda>e. fst e = a) (map (\<lambda>a. (a, t)) xs)) = 1"
  using assms by (induction xs) (auto simp: filter_empty_conv)

text \<open>
  Where no index takes for a key a name that every object inherits a property of,
  \<open>createTable\<close> declares every attribute name its indexes reference as a key exactly
  once: the attribute definitions are the referenced names in the order of their first
  reference, each of type \<open>S\<close>.
\<close>

lemma createTable_attribute_definitions:
  fixes d :: "'thr table_def"
  assumes "createTable_def tname ixs provisioned = Inr d"
    and own: "set (key_attributes ixs) \<inter> set Object_prototype_names = {}"
  shows "(\<forall>a \<in> set (key_attributes ixs).
            length (filter (\<lambda>e. fst e = a) (AttributeDefinitions d)) = 1)
       \<and> AttributeDefinitions d = map (\<lambda>a. (a, ''S'')) (first_occurrences (key_attributes ixs))"
proof -
  from assms(1) obtain st :: "'thr build" where st: "build_indexes ixs ixs empty_build = Inr st"
    and d: "AttributeDefinitions d = b_AttributeDefinitions st"
    by (auto simp: createTable_def_def split: sum.splits)
  have "attrs_inv (empty_build :: 'thr build) []"
    by (simp add: attrs_inv_def empty_build_def first_occurrences_def)
  from build_indexes_inv [OF st this] own
  have eq: "AttributeDefinitions d = map (\<lambda>a. (a, ''S'')) (first_occurrences (key_attributes ixs))"
    using d by (simp add: attrs_inv_def)
  have "length (filter (\<lambda>e. fst e = a) (AttributeDefinitions d)) = 1"
    if "a \<in> set (key_attributes ixs)" for a
  proof -
    from that have "a \<in> set (first_occurrences (key_attributes ixs))"
      by (simp add: set_first_occurrences)
    from distinct_count_one [OF distinct_first_occurrences this] show ?thesis
      by (simp only: eq)
  qed
  with eq show ?thesis by blast
qed

text \<open>
  The schema \<open>primary {hash: pk, sort: sk}\<close>, \<open>gs1 {hash: gsiPk, sort: sk, project: keys}\<close>,
  \<open>ls1 {sort: gsiPk}\<close>: \<open>sk\<close> and \<open>gsiPk\<close> are referenced twice and declared once.
\<close>

lemma createTable_attribute_definitions_scenario:
  "createTable_def ''T'' scenario_indexes (None :: unit option)
     = Inr \<lparr>AttributeDefinitions = [(''pk'', ''S''), (''sk'', ''S''), (''gsiPk'', ''S'')],
            KeySchema = [(Some ''pk'', ''HASH''), (Some ''sk'', ''RANGE'')],
            LocalSecondaryIndexes =
              Some [\<lparr>IndexName = ''ls1'',
                      IndexKeySchema = [(Some ''pk'', ''HASH''), (Some ''gsiPk'', ''RANGE'')],
                      ProjectionType = ''ALL'', NonKeyAttributes = None,
                      IndexProvisionedThroughput = None\<rparr>],
            GlobalSecondaryIndexes =
              Some [\<lparr>IndexName = ''gs1'',
                      IndexKeySchema = [(Some ''gsiPk'', ''HASH''), (Some ''sk'', ''RANGE'')],
                      ProjectionType = ''KEYS_ONLY'', NonKeyAttributes = None,
                      IndexProvisionedThroughput = None\<rparr>],
            TableName = ''T'', BillingMode = ''PAY_PER_REQUEST'', ProvisionedThroughput = None\<rparr>"
  by (simp add: createTable_def_def scenario_indexes_def empty_build_def add_index_def
      is_local_def primary_hash_def hash_key_name_def declare_attr_def attributes_has_def
      Object_prototype_names_def Let_def)

text \<open>
  Claim C7 (every attribute name referenced as a key has exactly one entry in
  \<open>AttributeDefinitions\<close>) at the schema \<open>primary {hash: constructor, sort: sk}\<close>. The
  object \<open>attributes\<close>, empty as it is, already has a truthy \<open>attributes['constructor']\<close>,
  the inherited one, so the loop takes \<open>constructor\<close> for declared: the key schema names
  it, and the attribute definitions have an entry for \<open>sk\<close> only.
\<close>

theorem createTable_inherited_attribute_name:
  "key_attributes constructor_indexes = [''constructor'', ''sk'']
   \<and> createTable_def ''T'' constructor_indexes (None :: unit option)
       = Inr \<lparr>AttributeDefinitions = [(''sk'', ''S'')],
              KeySchema = [(Some ''constructor'', ''HASH''), (Some ''sk'', ''RANGE'')],
              LocalSecondaryIndexes = None, GlobalSecondaryIndexes = None,
              TableName = ''T'', BillingMode = ''PAY_PER_REQUEST'',
              ProvisionedThroughput = None\<rparr>"
  by (simp add: key_attributes_def key_names_def constructor_indexes_def createTable_def_def
      empty_build_def add_index_def is_local_def primary_hash_def hash_key_name_def
      declare_attr_def attributes_has_def Object_prototype_names_def Let_def)

section \<open>Properties of the operation dispatcher\<close>

text \<open>
  Claim C2: when the client fails a \<open>put\<close> with the code
  \<open>ConditionalCheckFailedException\<close> and \<open>params.throw\<close> is not \<open>false\<close>, \<open>execute\<close>
  raises a new error, different from the client's, whose message ends with the model
  name; the failure is logged with \<open>info\<close>, and nothing is logged with \<open>error\<close>.
\<close>

theorem execute_put_conditional_check:
  assumes fails: "invoke t ''put'' (augment t ps cmd) = Inl err"
    and code: "err_code err = Some ''ConditionalCheckFailedException''"
    and throws: "p_throw ps \<noteq> Some False"
  shows \<open>outcome (execute t model ''put'' cmd ps properties)
           = Inl (Error (''Conditional create failed for "'' @ model))
       \<and> outcome (execute t model ''put'' cmd ps properties) \<noteq> Inl err
       \<and> logged (execute t model ''put'' cmd ps properties)
           = [(if p_log ps = Some True then ''info'' else ''trace'', ''OneTable "put" "'' @ model @ ''"''),
              (''info'', ''Conditional check failed "put" on "'' @ model @ ''"'')]
       \<and> ''error'' \<notin> fst ` set (logged (execute t model ''put'' cmd ps properties))\<close>
proof -
  have "err \<noteq> Error m" for m using code by auto
  then show ?thesis
    using assms by (auto simp: execute_def Let_def)
qed

text \<open>A conditional put of the model \<open>User\<close> on a V2 client that rejects it.\<close>

theorem execute_put_conditional_check_witness:
  \<open>outcome (execute (failing_table conditional_check_failed) ''User'' ''put'' user_cmd no_params user_cmd)
     = Inl (Error ''Conditional create failed for "User'')
   \<and> logged (execute (failing_table conditional_check_failed) ''User'' ''put'' user_cmd no_params user_cmd)
     = [(''trace'', ''OneTable "put" "User"''), (''info'', ''Conditional check failed "put" on "User"'')]\<close>
proof -
  have f: "invoke (failing_table conditional_check_failed) ''put''
             (augment (failing_table conditional_check_failed) no_params user_cmd)
           = Inl conditional_check_failed"
    by (simp add: invoke_def failing_table_def failing_client_def DocumentClientMethods_def dict_get_def)
  have c: "err_code conditional_check_failed = Some ''ConditionalCheckFailedException''"
    by (simp add: conditional_check_failed_def)
  have t: "p_throw no_params \<noteq> Some False" by (simp add: no_params_def)
  from execute_put_conditional_check [OF f c t, of "''User''" user_cmd]
  show ?thesis by (simp add: no_params_def)
qed

text \<open>
  With \<open>throw: false\<close> a failure of the client is replaced by the empty object, whatever
  the error and the operation are, as long as the info slot is not \<open>null\<close>.
\<close>

lemma execute_suppressed_failure:
  assumes "invoke t op (augment t ps cmd) = Inl err"
    and "p_throw ps = Some False"
    and "p_info ps \<noteq> InfoNull"
  shows "outcome (execute t model op cmd ps properties) = Inr (JObj [])"
  using assms by (cases "p_info ps") (simp_all add: execute_def finish_def Let_def)

text \<open>
  Claim C3 (with \<open>throw: false\<close> no exception reaches the caller) at the options
  \<open>{throw: false, info: null}\<close>: the client's failure is suppressed, and then the info slot
  is written, because \<open>typeof null\<close> is \<open>'object'\<close>; the write raises a TypeError, which
  reaches the caller.
\<close>

theorem execute_throw_false_null_info:
  "invoke (failing_table throttled) ''get'' (augment (failing_table throttled) (no_params\<lparr>p_throw := Some False, p_info := InfoNull\<rparr>) user_cmd)
     = Inl throttled
   \<and> outcome (execute (failing_table throttled) ''User'' ''get'' user_cmd
               (no_params\<lparr>p_throw := Some False, p_info := InfoNull\<rparr>) user_cmd)
     = Inl (TypeError ''Cannot set properties of null (setting operation)'')"
  by (simp add: execute_def finish_def invoke_def failing_table_def failing_client_def
      DocumentClientMethods_def dict_get_def augment_def no_params_def)

text \<open>What \<open>execute\<close> returns and records when the client answers.\<close>

lemma execute_success:
  assumes "invoke t op (augment t ps cmd) = Inr result"
  shows "outcome (execute t model op cmd ps properties)
           = (if p_info ps = InfoNull
              then Inl (TypeError ''Cannot set properties of null (setting operation)'')
              else Inr result)
       \<and> info_out (execute t model op cmd ps properties)
           = (if p_info ps = InfoObject
              then Some (dict_get DynamoOps op, augment t ps cmd, properties) else None)
       \<and> metrics_added (execute t model op cmd ps properties)
           = (if truthy result \<and> has_metrics t then [(model, op, result, ps)] else [])"
  using assms by (cases "p_info ps") (simp_all add: execute_def finish_def Let_def)

text \<open>The first call to the log, the command and the trace, on every path.\<close>

lemma execute_dispatch:
  \<open>hd (logged (execute t model op cmd ps properties))
     = (if p_log ps = Some True then ''info'' else ''trace'', ''OneTable "'' @ op @ ''" "'' @ model @ ''"'')
   \<and> cmd_out (execute t model op cmd ps properties) = augment t ps cmd
   \<and> map_option tr_model (traced (execute t model op cmd ps properties)) = Some model
   \<and> map_option tr_cmd (traced (execute t model op cmd ps properties)) = Some (augment t ps cmd)
   \<and> map_option tr_op (traced (execute t model op cmd ps properties)) = Some op
   \<and> map_option tr_properties (traced (execute t model op cmd ps properties)) = Some properties\<close>
  by (cases "invoke t op (augment t ps cmd)"; cases "p_info ps")
     (simp_all add: execute_def finish_def Let_def)

text \<open>
  Claim C9: \<open>batchGet\<close> of a non-empty batch dispatches with the empty options and with
  the caller's \<open>params\<close> as the properties of the trace. Whatever \<open>params\<close> hold, the info
  slot is not written, the command gets the capacity flags of the empty options, and the
  dispatch is logged with \<open>trace\<close>; a failure of the client is logged with \<open>error\<close>,
  recorded with the empty options, and raised to the caller, also under \<open>throw: false\<close>.
  \<open>batchWrite\<close> dispatches with \<open>params\<close> as options: they decide the severity of the
  first log line and the capacity flags of the command; under \<open>throw: false\<close> a failure is
  replaced by the empty object and otherwise raised; a result is recorded with \<open>params\<close>,
  and the info slot is written when \<open>params\<close> hold one.
\<close>

theorem batchGet_ignores_options:
  assumes nonempty: "batch \<noteq> []"
  shows \<open>dispatched (batchGet t batch ps)
       \<and> info_out (batchGet t batch ps) = None
       \<and> cmd_out (batchGet t batch ps)
           = augment t no_params
               (AList.update ''ConsistentRead'' (JBool (p_consistent ps = Some True)) batch)
       \<and> fst (hd (logged (batchGet t batch ps))) = ''trace''
       \<and> map_option tr_op (traced (batchGet t batch ps)) = Some ''batchGet''
       \<and> map_option tr_properties (traced (batchGet t batch ps)) = Some ps
       \<and> (\<forall>err. invoke t ''batchGet''
                   (augment t no_params
                      (AList.update ''ConsistentRead'' (JBool (p_consistent ps = Some True)) batch))
                 = Inl err
              \<longrightarrow> outcome (batchGet t batch ps) = Inl err
                \<and> logged (batchGet t batch ps)
                    = [(''trace'', ''OneTable "batchGet" "_Generic"''),
                       (''error'', ''OneTable exception in "batchGet" on "_Generic"'')]
                \<and> metrics_added (batchGet t batch ps)
                    = (if has_metrics t
                       then [(''_Generic'', ''batchGet'', JObj [(''Error'', JNum 1)], no_params)]
                       else []))
       \<and> (\<forall>result. invoke t ''batchGet''
                   (augment t no_params
                      (AList.update ''ConsistentRead'' (JBool (p_consistent ps = Some True)) batch))
                 = Inr result
              \<longrightarrow> metrics_added (batchGet t batch ps)
                    = (if truthy result \<and> has_metrics t
                       then [(''_Generic'', ''batchGet'', result, no_params)] else []))
       \<and> hd (logged (batchWrite t batch ps))
           = (if p_log ps = Some True then ''info'' else ''trace'', ''OneTable "batchWrite" "_Generic"'')
       \<and> cmd_out (batchWrite t batch ps) = augment t ps batch
       \<and> map_option tr_op (traced (batchWrite t batch ps)) = Some ''batchWrite''
       \<and> (\<forall>err. invoke t ''batchWrite'' (augment t ps batch) = Inl err
              \<longrightarrow> (p_throw ps = Some False \<and> p_info ps \<noteq> InfoNull
                     \<longrightarrow> outcome (batchWrite t batch ps) = Inr (JObj []))
                \<and> (p_throw ps \<noteq> Some False \<longrightarrow> outcome (batchWrite t batch ps) = Inl err))
       \<and> (\<forall>result. invoke t ''batchWrite'' (augment t ps batch) = Inr result
              \<longrightarrow> metrics_added (batchWrite t batch ps)
                    = (if truthy result \<and> has_metrics t
                       then [(''_Generic'', ''batchWrite'', result, ps)] else [])
                \<and> (p_info ps = InfoObject
                     \<longrightarrow> outcome (batchWrite t batch ps) = Inr result
                       \<and> info_out (batchWrite t batch ps)
                           = Some (Own ''batchWrite'', augment t ps batch, [])))\<close>
proof -
  let ?batch1 = "AList.update ''ConsistentRead'' (JBool (p_consistent ps = Some True)) batch"
  have always: "dispatched (batchGet t batch ps)
       \<and> info_out (batchGet t batch ps) = None
       \<and> cmd_out (batchGet t batch ps) = augment t no_params ?batch1
       \<and> fst (hd (logged (batchGet t batch ps))) = ''trace''"
    using nonempty
    by (auto simp: batchGet_def execute_def finish_def Let_def no_params_def split: sum.splits)
  have tr: "map_option tr_op (traced (batchGet t batch ps)) = Some ''batchGet''
       \<and> map_option tr_properties (traced (batchGet t batch ps)) = Some ps"
    using nonempty execute_dispatch [of t GenericModel "''batchGet''" ?batch1 no_params ps]
    by (simp add: batchGet_def Let_def)
  have g: \<open>outcome (batchGet t batch ps) = Inl err
         \<and> logged (batchGet t batch ps)
             = [(''trace'', ''OneTable "batchGet" "_Generic"''),
                (''error'', ''OneTable exception in "batchGet" on "_Generic"'')]
         \<and> metrics_added (batchGet t batch ps)
             = (if has_metrics t
                then [(''_Generic'', ''batchGet'', JObj [(''Error'', JNum 1)], no_params)]
                else [])\<close>
    if "invoke t ''batchGet'' (augment t no_params ?batch1) = Inl err" for err
    using nonempty that
    by (simp add: batchGet_def execute_def Let_def no_params_def GenericModel_def)
  have gm: "metrics_added (batchGet t batch ps)
             = (if truthy result \<and> has_metrics t
                then [(''_Generic'', ''batchGet'', result, no_params)] else [])"
    if "invoke t ''batchGet'' (augment t no_params ?batch1) = Inr result" for result
    using nonempty execute_success [OF that, of GenericModel ps]
    by (simp add: batchGet_def Let_def GenericModel_def)
  have wd: \<open>hd (logged (batchWrite t batch ps))
           = (if p_log ps = Some True then ''info'' else ''trace'', ''OneTable "batchWrite" "_Generic"'')
       \<and> cmd_out (batchWrite t batch ps) = augment t ps batch
       \<and> map_option tr_op (traced (batchWrite t batch ps)) = Some ''batchWrite''\<close>
    using nonempty execute_dispatch [of t GenericModel "''batchWrite''" batch ps "[] :: jsobj"]
    by (simp add: batchWrite_def GenericModel_def)
  have wf: "(p_throw ps = Some False \<and> p_info ps \<noteq> InfoNull
               \<longrightarrow> outcome (batchWrite t batch ps) = Inr (JObj []))
          \<and> (p_throw ps \<noteq> Some False \<longrightarrow> outcome (batchWrite t batch ps) = Inl err)"
    if f: "invoke t ''batchWrite'' (augment t ps batch) = Inl err" for err
  proof (intro conjI impI)
    assume "p_throw ps = Some False \<and> p_info ps \<noteq> InfoNull"
    then show "outcome (batchWrite t batch ps) = Inr (JObj [])"
      using nonempty execute_suppressed_failure [OF f] by (simp add: batchWrite_def)
  next
    assume "p_throw ps \<noteq> Some False"
    then show "outcome (batchWrite t batch ps) = Inl err"
      using nonempty f by (simp add: batchWrite_def execute_def Let_def)
  qed
  have ws: "metrics_added (batchWrite t batch ps)
              = (if truthy result \<and> has_metrics t
                 then [(''_Generic'', ''batchWrite'', result, ps)] else [])
          \<and> (p_info ps = InfoObject
               \<longrightarrow> outcome (batchWrite t batch ps) = Inr result
                 \<and> info_out (batchWrite t batch ps)
                     = Some (Own ''batchWrite'', augment t ps batch, []))"
    if "invoke t ''batchWrite'' (augment t ps batch) = Inr result" for result
    using nonempty execute_success [OF that, of GenericModel "[] :: jsobj"]
    by (simp add: batchWrite_def GenericModel_def DynamoOps_def dict_get_def)
  from always tr g gm wd wf ws show ?thesis by blast
qed

text \<open>
  A failing client and the options \<open>{throw: false, stats: true, log: true, capacity: 'TOTAL',
  info: {}}\<close>; then a client that answers, on a table that collects metrics.
\<close>

theorem batchGet_ignores_options_witness:
  \<open>outcome (batchGet (failing_table throttled) batch_cmd suppressing) = Inl throttled
   \<and> info_out (batchGet (failing_table throttled) batch_cmd suppressing) = None
   \<and> cmd_out (batchGet (failing_table throttled) batch_cmd suppressing)
       = batch_cmd @ [(''ConsistentRead'', JBool False)]
   \<and> map_option tr_properties (traced (batchGet (failing_table throttled) batch_cmd suppressing))
       = Some suppressing
   \<and> outcome (batchWrite (failing_table throttled) batch_cmd suppressing) = Inr (JObj [])
   \<and> outcome (batchWrite (failing_table throttled) batch_cmd no_params) = Inl throttled
   \<and> hd (logged (batchWrite (failing_table throttled) batch_cmd suppressing))
       = (''info'', ''OneTable "batchWrite" "_Generic"'')
   \<and> cmd_out (batchWrite (failing_table throttled) batch_cmd suppressing)
       = batch_cmd @ [(''ReturnConsumedCapacity'', JStr ''TOTAL''),
                      (''ReturnItemCollectionMetrics'', JStr ''SIZE'')]
   \<and> metrics_added (batchGet answering_table batch_cmd suppressing)
       = [(''_Generic'', ''batchGet'', answer, no_params)]
   \<and> metrics_added (batchWrite answering_table batch_cmd suppressing)
       = [(''_Generic'', ''batchWrite'', answer, suppressing)]
   \<and> info_out (batchWrite answering_table batch_cmd suppressing)
       = Some (Own ''batchWrite'', augment answering_table suppressing batch_cmd, [])\<close>
proof -
  have n: "batch_cmd \<noteq> []" by (simp add: batch_cmd_def)
  have f: "invoke (failing_table throttled) ''batchGet''
             (augment (failing_table throttled) no_params
                (AList.update ''ConsistentRead'' (JBool (p_consistent suppressing = Some True)) batch_cmd))
           = Inl throttled"
    by (simp add: invoke_def failing_table_def failing_client_def DocumentClientMethods_def dict_get_def)
  have w: "invoke (failing_table throttled) ''batchWrite''
             (augment (failing_table throttled) suppressing batch_cmd) = Inl throttled"
    by (simp add: invoke_def failing_table_def failing_client_def DocumentClientMethods_def dict_get_def)
  have w0: "invoke (failing_table throttled) ''batchWrite''
             (augment (failing_table throttled) no_params batch_cmd) = Inl throttled"
    by (simp add: invoke_def failing_table_def failing_client_def DocumentClientMethods_def dict_get_def)
  have a: "augment (failing_table throttled) no_params
             (AList.update ''ConsistentRead'' (JBool (p_consistent suppressing = Some True)) batch_cmd)
           = batch_cmd @ [(''ConsistentRead'', JBool False)]"
    by (simp add: augment_def failing_table_def no_params_def suppressing_def batch_cmd_def)
  have aw: "augment (failing_table throttled) suppressing batch_cmd
           = batch_cmd @ [(''ReturnConsumedCapacity'', JStr ''TOTAL''),
                          (''ReturnItemCollectionMetrics'', JStr ''SIZE'')]"
    by (simp add: augment_def failing_table_def no_params_def suppressing_def batch_cmd_def)
  have s: "p_throw suppressing = Some False" "p_info suppressing \<noteq> InfoNull"
    "p_info suppressing = InfoObject" "p_log suppressing = Some True"
    "p_throw no_params \<noteq> Some False"
    by (simp_all add: suppressing_def no_params_def)
  have g: "invoke answering_table ''batchGet''
             (augment answering_table no_params
                (AList.update ''ConsistentRead'' (JBool (p_consistent suppressing = Some True)) batch_cmd))
           = Inr answer"
    by (simp add: invoke_def answering_table_def DocumentClientMethods_def dict_get_def)
  have gw: "invoke answering_table ''batchWrite'' (augment answering_table suppressing batch_cmd)
           = Inr answer"
    by (simp add: invoke_def answering_table_def DocumentClientMethods_def dict_get_def)
  have m: "truthy answer \<and> has_metrics answering_table"
    by (simp add: answer_def answering_table_def)
  note t1 = batchGet_ignores_options [OF n, of "failing_table throttled" suppressing]
  note t2 = batchGet_ignores_options [OF n, of "failing_table throttled" no_params]
  note t3 = batchGet_ignores_options [OF n, of answering_table suppressing]
  from t1 f w a aw s have 1:
    \<open>outcome (batchGet (failing_table throttled) batch_cmd suppressing) = Inl throttled
     \<and> info_out (batchGet (failing_table throttled) batch_cmd suppressing) = None
     \<and> cmd_out (batchGet (failing_table throttled) batch_cmd suppressing)
         = batch_cmd @ [(''ConsistentRead'', JBool False)]
     \<and> map_option tr_properties (traced (batchGet (failing_table throttled) batch_cmd suppressing))
         = Some suppressing
     \<and> outcome (batchWrite (failing_table throttled) batch_cmd suppressing) = Inr (JObj [])
     \<and> hd (logged (batchWrite (failing_table throttled) batch_cmd suppressing))
         = (''info'', ''OneTable "batchWrite" "_Generic"'')
     \<and> cmd_out (batchWrite (failing_table throttled) batch_cmd suppressing)
         = batch_cmd @ [(''ReturnConsumedCapacity'', JStr ''TOTAL''),
                        (''ReturnItemCollectionMetrics'', JStr ''SIZE'')]\<close>
    by simp
  from t2 w0 s have 2: "outcome (batchWrite (failing_table throttled) batch_cmd no_params) = Inl throttled"
    by blast
  from t3 g gw m s have 3:
    "metrics_added (batchGet answering_table batch_cmd suppressing)
       = [(''_Generic'', ''batchGet'', answer, no_params)]
     \<and> metrics_added (batchWrite answering_table batch_cmd suppressing)
       = [(''_Generic'', ''batchWrite'', answer, suppressing)]
     \<and> info_out (batchWrite answering_table batch_cmd suppressing)
       = Some (Own ''batchWrite'', augment answering_table suppressing batch_cmd, [])"
    by simp
  from 1 2 3 show ?thesis by simp
qed

section \<open>Properties of the format compatibility layer\<close>







lemma converted_unchanged: "\<not> test (snd e) \<Longrightarrow> converted test conv e e"
  by (simp add: converted_def)










section \<open>Properties of the deep merge\<close>

text \<open>
  A call at recursion level \<open>recurse\<close> never needs more than \<open>52 - recurse\<close> nested
  calls, whatever the heap holds.
\<close>

lemma enough_fuel:
  "1 \<le> n \<and> 52 \<le> n + recurse \<longrightarrow> mergeOne n recurse dest src h \<noteq> None"
  "1 \<le> n \<and> 52 \<le> n + recurse \<longrightarrow> mergeEntries n recurse dest es h \<noteq> None"
proof (induction n recurse dest src h and n recurse dest es h rule: mergeOne_mergeEntries.induct)
  case (1 recurse dest src h)
  show ?case by simp
next
  case (2 n recurse dest src h)
  show ?case
  proof (intro impI)
    assume a: "1 \<le> Suc n \<and> 52 \<le> Suc n + recurse"
    show "mergeOne (Suc n) recurse dest src h \<noteq> None"
    proof (cases "50 < recurse")
      case True
      then show ?thesis by simp
    next
      case False
      with a have n: "1 \<le> n \<and> 52 \<le> n + (recurse + 1)" by arith
      show ?thesis
      proof (cases "entries h src")
        case (Inl e)
        with False show ?thesis by simp
      next
        case (Inr es)
        with False "2.IH" [OF False Inr] n show ?thesis by simp
      qed
    qed
  qed
next
  case (3 n recurse dest h)
  show ?case by simp
next
  case (4 n recurse dest key v es h)
  show ?case
  proof (intro impI)
    assume a: "1 \<le> n \<and> 52 \<le> n + recurse"
    show "mergeEntries n recurse dest ((key, v) # es) h \<noteq> None"
    proof (cases "prepare h dest key v")
      case Skip
      with "4.IH"(1) a show ?thesis by simp
    next
      case (Assign w h1)
      with "4.IH"(2) a show ?thesis by (simp split: sum.splits)
    next
      case (Descend d h1)
      from "4.IH"(3) [OF Descend] a
      obtain r where r: "mergeOne n recurse d v h1 = Some r" by auto
      show ?thesis
      proof (cases r)
        case (Inl e)
        with Descend r show ?thesis by simp
      next
        case (Inr p)
        obtain d2 h2 where p: "p = (d2, h2)" by (cases p)
        show ?thesis
        proof (cases "hput h2 dest key d2")
          case (Inl e)
          with Descend r Inr p show ?thesis by simp
        next
          case hp: (Inr h3)
          from "4.IH"(4) [OF Descend r Inr p [symmetric] hp] a Descend r Inr p hp
          show ?thesis by simp
        qed
      qed
    next
      case (Fail e)
      then show ?thesis by simp
    qed
  qed
qed

text \<open>A result does not change when more nested calls are allowed.\<close>

lemma more_fuel:
  "mergeOne n recurse dest src h = Some x \<longrightarrow> mergeOne (Suc n) recurse dest src h = Some x"
  "mergeEntries n recurse dest es h = Some x \<longrightarrow> mergeEntries (Suc n) recurse dest es h = Some x"
proof (induction n recurse dest src h and n recurse dest es h arbitrary: x and x
    rule: mergeOne_mergeEntries.induct)
  case (1 recurse dest src h)
  show ?case by simp
next
  case (2 n recurse dest src h)
  show ?case
  proof (cases "50 < recurse")
    case True
    then show ?thesis by simp
  next
    case False
    show ?thesis
    proof (cases "entries h src")
      case (Inl e)
      with False show ?thesis by simp
    next
      case (Inr es)
      with False "2.IH" [OF False Inr, of x] show ?thesis by simp
    qed
  qed
next
  case (3 n recurse dest h)
  show ?case by simp
next
  case (4 n recurse dest key v es h)
  show ?case
  proof (cases "prepare h dest key v")
    case Skip
    with "4.IH"(1) [of x] show ?thesis by simp
  next
    case (Assign w h1)
    show ?thesis
    proof (cases "hput h1 dest key w")
      case (Inl e)
      with Assign show ?thesis by simp
    next
      case (Inr h2)
      with Assign "4.IH"(2) [OF Assign Inr, of x] show ?thesis by simp
    qed
  next
    case (Descend d h1)
    show ?thesis
    proof (cases "mergeOne n recurse d v h1")
      case None
      with Descend show ?thesis by simp
    next
      case (Some r)
      with "4.IH"(3) [OF Descend, of r]
      have up: "mergeOne (Suc n) recurse d v h1 = Some r" by simp
      show ?thesis
      proof (cases r)
        case (Inl e)
        with Descend Some up show ?thesis by (auto simp del: mergeOne.simps)
      next
        case (Inr p)
        obtain d2 h2 where p: "p = (d2, h2)" by (cases p)
        show ?thesis
        proof (cases "hput h2 dest key d2")
          case (Inl e)
          with Descend Some up Inr p show ?thesis by (simp del: mergeOne.simps)
        next
          case hp: (Inr h3)
          from "4.IH"(4) [OF Descend Some Inr p [symmetric] hp, of x] Descend Some up Inr p hp
          show ?thesis by (simp del: mergeOne.simps)
        qed
      qed
    qed
  next
    case (Fail e)
    then show ?thesis by simp
  qed
qed

lemma mergeOne_add_fuel:
  "mergeOne n recurse dest src h = Some x \<Longrightarrow> mergeOne (n + k) recurse dest src h = Some x"
  by (induction k) (simp_all del: mergeOne.simps add: more_fuel(1) [rule_format])

lemma mergeOne_fuel_52:
  assumes "52 \<le> n"
  shows "mergeOne n 0 dest src h = mergeOne 52 0 dest src h"
proof -
  from enough_fuel(1) [of 52 0 dest src h]
  obtain x where x: "mergeOne 52 0 dest src h = Some x" by auto
  from mergeOne_add_fuel [OF x, of "n - 52"] assms x show ?thesis by simp
qed

lemma merge_fuel_52:
  assumes "52 \<le> n"
  shows "merge n dest sources h = merge 52 dest sources h"
proof (induction sources arbitrary: dest h)
  case Nil
  show ?case by simp
next
  case (Cons src sources)
  then show ?case
    by (simp add: mergeOne_fuel_52 [OF assms] split: option.splits sum.splits)
qed

lemma merge_returns: "merge 52 dest sources h \<noteq> None"
proof (induction sources arbitrary: dest h)
  case Nil
  show ?case by simp
next
  case (Cons src sources)
  from enough_fuel(1) [of 52 0 dest src h]
  obtain x where x: "mergeOne 52 0 dest src h = Some x" by auto
  with Cons show ?case by (simp split: sum.splits)
qed

text \<open>
  An object that holds itself, merged into an empty object; a chain of nested objects with
  its innermost object at depth 51, and one with its innermost object at depth 50.
\<close>

lemma merge_cyclic:
  "merge 52 (HRef 1) [HRef 0] cyclic_heap = Some (Inl (Error ''Recursive clone''))"
  by code_simp

lemma merge_chain_51:
  "merge 52 (HRef 52) [HRef 0] (chain_heap 0 51 @ [(Plain, [])]) = Some (Inl (Error ''Recursive clone''))"
  by code_simp

lemma merge_chain_50:
  "map_option isl (merge 52 (HRef 51) [HRef 0] (chain_heap 0 50 @ [(Plain, [])])) = Some False"
  by code_simp

text \<open>
  Claim C8: \<open>merge\<close> returns on every input, cyclic heaps and arbitrarily deep nesting
  included: 52 nested calls of \<open>mergeOne\<close> are always enough, and allowing more changes
  nothing, so the recursion is never deeper than that. A call of \<open>mergeOne\<close> at a
  level above 50 raises \<open>Recursive clone\<close> at once.
\<close>

theorem merge_terminates_depth_guard:
  "(\<exists>res. merge 52 dest sources h = Some res)
   \<and> (\<forall>n\<ge>52. merge n dest sources h = merge 52 dest sources h)
   \<and> (recurse \<le> 51 \<longrightarrow> (\<exists>res. mergeOne (52 - recurse) recurse d src h' = Some res))
   \<and> (50 < recurse \<longrightarrow> mergeOne (Suc n) recurse d src h' = Some (Inl (Error ''Recursive clone'')))"
proof (intro conjI allI impI)
  show "\<exists>res. merge 52 dest sources h = Some res"
    using merge_returns [of dest sources h] by blast
next
  fix n :: nat
  assume "52 \<le> n"
  then show "merge n dest sources h = merge 52 dest sources h"
    by (rule merge_fuel_52)
next
  assume "recurse \<le> 51"
  then have "1 \<le> 52 - recurse \<and> 52 \<le> 52 - recurse + recurse" by arith
  with enough_fuel(1) [of "52 - recurse" recurse d src h']
  show "\<exists>res. mergeOne (52 - recurse) recurse d src h' = Some res" by blast
next
  assume "50 < recurse"
  then show "mergeOne (Suc n) recurse d src h' = Some (Inl (Error ''Recursive clone''))"
    by simp
qed

text \<open>
  On the cyclic heap \<open>merge\<close> raises \<open>Recursive clone\<close>, with 52 and with 100 nested calls
  allowed, as does a call at level 51.
\<close>

theorem merge_terminates_depth_guard_witness:
  "merge 52 (HRef 1) [HRef 0] cyclic_heap = Some (Inl (Error ''Recursive clone''))
   \<and> merge 100 (HRef 1) [HRef 0] cyclic_heap = Some (Inl (Error ''Recursive clone''))
   \<and> mergeOne 1 51 (HRef 1) (HRef 0) cyclic_heap = Some (Inl (Error ''Recursive clone''))"
proof -
  note t = merge_terminates_depth_guard [of "HRef 1" "[HRef 0]" cyclic_heap 51 "HRef 1" "HRef 0" cyclic_heap 0]
  from t have 1: "\<forall>n\<ge>52. merge n (HRef 1) [HRef 0] cyclic_heap = merge 52 (HRef 1) [HRef 0] cyclic_heap"
    by (elim conjE)
  from t have 2: "50 < (51::nat) \<longrightarrow> mergeOne (Suc 0) 51 (HRef 1) (HRef 0) cyclic_heap = Some (Inl (Error ''Recursive clone''))"
    by (elim conjE)
  have a: "(52::nat) \<le> 100" and b: "(50::nat) < 51" by simp_all
  from 1 a have 3: "merge 100 (HRef 1) [HRef 0] cyclic_heap = merge 52 (HRef 1) [HRef 0] cyclic_heap"
    by blast
  from 2 b have 4: "mergeOne (Suc 0) 51 (HRef 1) (HRef 0) cyclic_heap = Some (Inl (Error ''Recursive clone''))"
    by blast
  from 3 4 merge_cyclic show ?thesis by (simp only: One_nat_def simp_thms)
qed

end
